theory Spec2Isabelle
  imports Complex_Main "HOL-Library.Log_Nat" "HOL-Library.Product_Lexorder"
    "HOL-Library.State_Monad"
begin

section \<open>Python values used by gym\_membership.py\<close>

subsection \<open>Floats: IEEE 754 binary64 with round-to-nearest, ties-to-even\<close>

text \<open>
  A Python \<open>float\<close> is a binary64 number.  A finite one is the rational \<open>m * 2^q\<close> with
  \<open>\<bar>m\<bar> < 2^53\<close> and \<open>-1074 \<le> q\<close>; \<open>Fin\<close> carries that rational.  The two zeros are
  identified: Python's \<open>==\<close> and \<open>>\<close> do not tell them apart, and only the sign printed
  in front of a zero would.  Every arithmetic operation computes the exact rational result
  and rounds it with \<open>rnd\<close>; a float literal such as \<open>29.99\<close> is \<open>rnd (2999 / 100)\<close>.
\<close>

datatype pyfloat = Fin rat | PInf | NInf | NaN

definition ilog2 :: "rat \<Rightarrow> int" where
  \<comment> \<open>\<open>\<lfloor>log\<^sub>2 a\<rfloor>\<close> for \<open>a > 0\<close>, from the bit lengths of numerator and denominator\<close>
  "ilog2 a = (case quotient_of a of (p, q) \<Rightarrow>
     (let e0 = bitlen p - bitlen q in if 2 powi e0 \<le> a then e0 else e0 - 1))"

definition round_half_even :: "rat \<Rightarrow> int" where
  "round_half_even r = (let f = \<lfloor>r\<rfloor>; d = r - of_int f in
     if d < 1/2 then f else if 1/2 < d then f + 1 else if even f then f else f + 1)"

fun fneg :: "pyfloat \<Rightarrow> pyfloat" where
  "fneg (Fin a) = Fin (- a)"
| "fneg PInf = NInf"
| "fneg NInf = PInf"
| "fneg NaN = NaN"

definition round_mag :: "rat \<Rightarrow> pyfloat" where
  \<comment> \<open>rounding of a magnitude \<open>a > 0\<close>: the unit in the last place is \<open>2^q\<close>, with 53
      significant bits above the subnormal range and \<open>2^-1074\<close> inside it; the result
      overflows to infinity when the rounded value reaches \<open>2^1024 = 2^53 * 2^971\<close>\<close>
  "round_mag a =
     (let q = max (ilog2 a - 52) (- 1074);
          m = round_half_even (a / 2 powi q)
      in if 971 < q \<or> (q = 971 \<and> 9007199254740992 \<le> m) then PInf
         else Fin (of_int m * 2 powi q))"

definition rnd :: "rat \<Rightarrow> pyfloat" where
  "rnd x = (if x = 0 then Fin 0 else if 0 < x then round_mag x else fneg (round_mag (- x)))"

definition unit_roundoff :: rat where
  \<comment> \<open>half the distance between 1 and the next float, \<open>2^-53\<close>\<close>
  "unit_roundoff = 1 / 9007199254740992"

definition eta :: rat where
  \<comment> \<open>half the smallest positive float, which bounds the rounding error near zero\<close>
  "eta = 2 powi (- 1075)"

fun fadd :: "pyfloat \<Rightarrow> pyfloat \<Rightarrow> pyfloat" where
  "fadd (Fin a) (Fin b) = rnd (a + b)"
| "fadd NaN _ = NaN"
| "fadd _ NaN = NaN"
| "fadd PInf NInf = NaN"
| "fadd NInf PInf = NaN"
| "fadd PInf _ = PInf"
| "fadd NInf _ = NInf"
| "fadd _ PInf = PInf"
| "fadd _ NInf = NInf"

definition fsub :: "pyfloat \<Rightarrow> pyfloat \<Rightarrow> pyfloat" where
  "fsub x y = fadd x (fneg y)"

fun fmul :: "pyfloat \<Rightarrow> pyfloat \<Rightarrow> pyfloat" where
  "fmul (Fin a) (Fin b) = rnd (a * b)"
| "fmul NaN _ = NaN"
| "fmul _ NaN = NaN"
| "fmul (Fin a) PInf = (if a = 0 then NaN else if 0 < a then PInf else NInf)"
| "fmul (Fin a) NInf = (if a = 0 then NaN else if 0 < a then NInf else PInf)"
| "fmul PInf (Fin b) = (if b = 0 then NaN else if 0 < b then PInf else NInf)"
| "fmul NInf (Fin b) = (if b = 0 then NaN else if 0 < b then NInf else PInf)"
| "fmul PInf PInf = PInf"
| "fmul PInf NInf = NInf"
| "fmul NInf PInf = NInf"
| "fmul NInf NInf = PInf"

fun fgt :: "pyfloat \<Rightarrow> pyfloat \<Rightarrow> bool" where
  \<comment> \<open>Python's \<open>x > y\<close>; every comparison with a NaN is false\<close>
  "fgt (Fin a) (Fin b) = (b < a)"
| "fgt NaN _ = False"
| "fgt _ NaN = False"
| "fgt PInf PInf = False"
| "fgt PInf _ = True"
| "fgt NInf _ = False"
| "fgt (Fin a) PInf = False"
| "fgt (Fin a) NInf = True"

definition of_pyint :: "int \<Rightarrow> pyfloat" where
  \<comment> \<open>a Python \<open>int\<close> in a float context; the source only has the small integers
      0, 20, 50, 200 and 400 there, which binary64 holds exactly\<close>
  "of_pyint i = Fin (of_int i)"

subsection \<open>Dynamically typed arguments\<close>

text \<open>
  The validation functions inspect the run-time type of their argument
  (\<open>isinstance\<close>), so their argument is a tagged Python value.  Lists and tuples hold
  strings, as the type hints of the source say.
\<close>

datatype pyval =
    PyNone
  | PyBool bool
  | PyInt int
  | PyFloat pyfloat
  | PyStr string
  | PyList "string list"
  | PyTuple "string list"

datatype py_error = KeyError string

section \<open>The data model\<close>

datatype PremiumFeatureLevel = NONE | EXCLUSIVE_FACILITIES | SPECIALIZED_TRAINING

fun level_value :: "PremiumFeatureLevel \<Rightarrow> string" where
  "level_value NONE = ''None''"
| "level_value EXCLUSIVE_FACILITIES = ''Exclusive Facilities''"
| "level_value SPECIALIZED_TRAINING = ''Specialized Training''"

text \<open>
  The two dataclasses.  Their fields carry a prefix (\<open>p_\<close>, \<open>f_\<close>) because the methods
  use \<open>cost\<close> and \<open>base_cost\<close> as names of local variables.
\<close>

record MembershipPlan =
  p_name :: string
  p_base_cost :: pyfloat
  p_benefits :: "string list"
  p_available :: bool

record AdditionalFeature =
  f_name :: string
  f_cost :: pyfloat
  f_available :: bool

text \<open>
  The two instance attributes of \<open>GymMembershipManager\<close>, each a dict keyed by name.  A
  Python dict also keeps its keys in insertion order, which only \<open>values()\<close> shows:
  \<open>plan_order\<close> and \<open>feature_order\<close> list the keys of the two dicts in that order.
\<close>

record manager =
  membership_plans :: "string \<rightharpoonup> MembershipPlan"
  additional_features :: "string \<rightharpoonup> AdditionalFeature"
  plan_order :: "string list"
  feature_order :: "string list"

text \<open>The dict returned by \<open>calculate_total_cost\<close>; its nine keys are fixed.\<close>

record breakdown =
  bd_base_cost :: pyfloat
  bd_features_cost :: pyfloat
  bd_subtotal :: pyfloat
  bd_group_discount :: pyfloat
  bd_after_group_discount :: pyfloat
  bd_special_offer_discount :: pyfloat
  bd_after_special_discount :: pyfloat
  bd_premium_surcharge :: pyfloat
  bd_total_cost :: pyfloat

section \<open>Class constants and the seed catalogs\<close>

definition MEMBERSHIP_PLANS :: "string \<rightharpoonup> MembershipPlan" where
  "MEMBERSHIP_PLANS = map_of
     [(''Basic'', \<lparr>p_name = ''Basic'', p_base_cost = rnd (2999 / 100),
         p_benefits = [''Access to gym equipment'', ''Basic locker room access''],
         p_available = True\<rparr>),
      (''Premium'', \<lparr>p_name = ''Premium'', p_base_cost = rnd (5999 / 100),
         p_benefits = [''Access to gym equipment'', ''Premium locker room'', ''Sauna access''],
         p_available = True\<rparr>),
      (''Family'', \<lparr>p_name = ''Family'', p_base_cost = rnd (9999 / 100),
         p_benefits = [''Up to 4 family members'', ''All Premium benefits'',
           ''Family lounge access''],
         p_available = True\<rparr>)]"

definition ADDITIONAL_FEATURES :: "string \<rightharpoonup> AdditionalFeature" where
  "ADDITIONAL_FEATURES = map_of
     [(''Personal Training'', \<lparr>f_name = ''Personal Training'',
         f_cost = rnd 50, f_available = True\<rparr>),
      (''Group Classes'', \<lparr>f_name = ''Group Classes'',
         f_cost = rnd 30, f_available = True\<rparr>),
      (''Nutritional Consulting'', \<lparr>f_name = ''Nutritional Consulting'',
         f_cost = rnd 40, f_available = True\<rparr>)]"

definition SPECIAL_OFFER_DISCOUNTS :: "(int \<times> int) list" where
  "SPECIAL_OFFER_DISCOUNTS = [(200, 20), (400, 50)]"

definition GROUP_DISCOUNT_THRESHOLD :: int where
  "GROUP_DISCOUNT_THRESHOLD = 2"

definition GROUP_DISCOUNT_PERCENTAGE :: pyfloat where
  "GROUP_DISCOUNT_PERCENTAGE = rnd (10 / 100)"

definition PREMIUM_SURCHARGE_PERCENTAGE :: pyfloat where
  "PREMIUM_SURCHARGE_PERCENTAGE = rnd (15 / 100)"

definition init_manager :: manager where
  \<comment> \<open>\<open>__init__\<close>: both catalogs are copies of the class-level dicts\<close>
  "init_manager = \<lparr>membership_plans = MEMBERSHIP_PLANS,
                    additional_features = ADDITIONAL_FEATURES,
                    plan_order = [''Basic'', ''Premium'', ''Family''],
                    feature_order = [''Personal Training'', ''Group Classes'',
                      ''Nutritional Consulting'']\<rparr>"

text \<open>
  The tests and an administrator switch a feature or a plan off and on by assigning to its
  \<open>available\<close> attribute.
\<close>

definition set_feature_available :: "manager \<Rightarrow> string \<Rightarrow> bool \<Rightarrow> manager" where
  "set_feature_available self feature_name flag =
     (case additional_features self feature_name of
        None \<Rightarrow> self
      | Some f \<Rightarrow> self\<lparr>additional_features :=
          (additional_features self)(feature_name \<mapsto> f\<lparr>f_available := flag\<rparr>)\<rparr>)"

definition set_plan_available :: "manager \<Rightarrow> string \<Rightarrow> bool \<Rightarrow> manager" where
  "set_plan_available self plan_name flag =
     (case membership_plans self plan_name of
        None \<Rightarrow> self
      | Some p \<Rightarrow> self\<lparr>membership_plans :=
          (membership_plans self)(plan_name \<mapsto> p\<lparr>p_available := flag\<rparr>)\<rparr>)"

section \<open>Validation\<close>

definition quoted :: "string \<Rightarrow> string" where
  \<comment> \<open>\<open>'{name}'\<close> inside the f-strings of the error messages\<close>
  "quoted s = [CHR 0x27] @ s @ [CHR 0x27]"

definition validate_membership_plan :: "manager \<Rightarrow> string \<Rightarrow> bool \<times> string option" where
  "validate_membership_plan self plan_name =
     (case membership_plans self plan_name of
        None \<Rightarrow> (False, Some (''Membership plan '' @ quoted plan_name @ '' does not exist.''))
      | Some plan \<Rightarrow>
          if \<not> p_available plan
          then (False, Some (''Membership plan '' @ quoted plan_name
                  @ '' is currently unavailable.''))
          else (True, None))"

fun validate_features_loop :: "manager \<Rightarrow> string list \<Rightarrow> bool \<times> string option" where
  "validate_features_loop self [] = (True, None)"
| "validate_features_loop self (feature_name # rest) =
     (case additional_features self feature_name of
        None \<Rightarrow> (False, Some (''Additional feature '' @ quoted feature_name
                  @ '' does not exist.''))
      | Some feature \<Rightarrow>
          if \<not> f_available feature
          then (False, Some (''Additional feature '' @ quoted feature_name
                  @ '' is currently unavailable.''))
          else validate_features_loop self rest)"

fun validate_features :: "manager \<Rightarrow> pyval \<Rightarrow> bool \<times> string option" where
  \<comment> \<open>\<open>isinstance(feature_names, list)\<close> holds of lists only\<close>
  "validate_features self (PyList feature_names) = validate_features_loop self feature_names"
| "validate_features self _ = (False, Some ''Features must be provided as a list.'')"

fun as_int :: "pyval \<Rightarrow> int option" where
  \<comment> \<open>\<open>isinstance(v, int)\<close>: \<open>bool\<close> is a subclass of \<open>int\<close>, with \<open>True == 1\<close>\<close>
  "as_int (PyInt i) = Some i"
| "as_int (PyBool b) = Some (if b then 1 else 0)"
| "as_int _ = None"

definition validate_num_members :: "pyval \<Rightarrow> bool \<times> string option" where
  "validate_num_members num_members =
     (case as_int num_members of
        None \<Rightarrow> (False, Some ''Number of members must be an integer.'')
      | Some n \<Rightarrow>
          if n < 1 then (False, Some ''Number of members must be at least 1.'')
          else if n > 10 then (False, Some ''Number of members cannot exceed 10.'')
          else (True, None))"

section \<open>Cost calculation\<close>

definition calculate_base_cost :: "manager \<Rightarrow> string \<Rightarrow> py_error + pyfloat" where
  "calculate_base_cost self plan_name =
     (case membership_plans self plan_name of
        None \<Rightarrow> Inl (KeyError plan_name)
      | Some plan \<Rightarrow> Inr (p_base_cost plan))"

fun features_cost_loop :: "manager \<Rightarrow> pyfloat \<Rightarrow> string list \<Rightarrow> py_error + pyfloat" where
  \<comment> \<open>the \<open>for\<close> loop of \<open>calculate_features_cost\<close>; \<open>total'\<close> is its variable \<open>total\<close>\<close>
  "features_cost_loop self total' [] = Inr total'"
| "features_cost_loop self total' (feature_name # rest) =
     (case additional_features self feature_name of
        None \<Rightarrow> Inl (KeyError feature_name)
      | Some feature \<Rightarrow> features_cost_loop self (fadd total' (f_cost feature)) rest)"

definition calculate_features_cost :: "manager \<Rightarrow> string list \<Rightarrow> py_error + pyfloat" where
  "calculate_features_cost self feature_names = features_cost_loop self (Fin 0) feature_names"

definition calculate_group_discount :: "pyfloat \<Rightarrow> int \<Rightarrow> pyfloat \<times> pyfloat" where
  "calculate_group_discount base_total num_members =
     (if num_members < GROUP_DISCOUNT_THRESHOLD then (base_total, Fin 0)
      else (let discount_amount = fmul base_total GROUP_DISCOUNT_PERCENTAGE;
                discounted_cost = fsub base_total discount_amount
            in (discounted_cost, discount_amount)))"

definition sorted_reverse :: "(int \<times> int) list \<Rightarrow> (int \<times> int) list" where
  \<comment> \<open>\<open>sorted(xs, reverse=True)\<close> on tuples: descending in the lexicographic order\<close>
  "sorted_reverse xs = rev (sort xs)"

fun special_offer_loop :: "pyfloat \<Rightarrow> pyfloat \<Rightarrow> (int \<times> int) list \<Rightarrow> pyfloat" where
  \<comment> \<open>the \<open>for\<close> loop with its \<open>break\<close>; \<open>discount_amount\<close> is the value before the loop\<close>
  "special_offer_loop cost discount_amount [] = discount_amount"
| "special_offer_loop cost discount_amount ((threshold, discount) # rest) =
     (if fgt cost (of_pyint threshold) then of_pyint discount
      else special_offer_loop cost discount_amount rest)"

definition calculate_special_offer_discount :: "pyfloat \<Rightarrow> pyfloat \<times> pyfloat" where
  "calculate_special_offer_discount cost =
     (let discount_amount =
            special_offer_loop cost (Fin 0) (sorted_reverse SPECIAL_OFFER_DISCOUNTS);
          discounted_cost = fsub cost discount_amount
      in (discounted_cost, discount_amount))"

definition calculate_premium_surcharge ::
  "pyfloat \<Rightarrow> PremiumFeatureLevel \<Rightarrow> pyfloat \<times> pyfloat" where
  "calculate_premium_surcharge cost premium_level =
     (if premium_level = NONE then (cost, Fin 0)
      else (let surcharge_amount = fmul cost PREMIUM_SURCHARGE_PERCENTAGE;
                total_with_surcharge = fadd cost surcharge_amount
            in (total_with_surcharge, surcharge_amount)))"

definition calculate_total_cost ::
  "manager \<Rightarrow> string \<Rightarrow> string list \<Rightarrow> int \<Rightarrow> PremiumFeatureLevel
     \<Rightarrow> py_error + (pyfloat \<times> breakdown)" where
  "calculate_total_cost self plan_name feature_names num_members premium_level =
     (case calculate_base_cost self plan_name of
        Inl e \<Rightarrow> Inl e
      | Inr base_cost \<Rightarrow>
     (case calculate_features_cost self feature_names of
        Inl e \<Rightarrow> Inl e
      | Inr features_cost \<Rightarrow>
     (let subtotal = fadd base_cost features_cost;
          (after_group, group_discount) = calculate_group_discount subtotal num_members;
          (after_special, special_discount) = calculate_special_offer_discount after_group;
          (total_with_surcharge, surcharge) =
             calculate_premium_surcharge after_special premium_level
      in Inr (total_with_surcharge,
           \<lparr>bd_base_cost = base_cost,
            bd_features_cost = features_cost,
            bd_subtotal = subtotal,
            bd_group_discount = group_discount,
            bd_after_group_discount = after_group,
            bd_special_offer_discount = special_discount,
            bd_after_special_discount = after_special,
            bd_premium_surcharge = surcharge,
            bd_total_cost = total_with_surcharge\<rparr>))))"

section \<open>Summary rendering\<close>

subsection \<open>String operations of Python\<close>

definition digit_char :: "nat \<Rightarrow> char" where
  "digit_char d = ''0123456789'' ! d"

function str_nat :: "nat \<Rightarrow> string" where
  "str_nat n = (if n < 10 then [digit_char n] else str_nat (n div 10) @ [digit_char (n mod 10)])"
  by pat_completeness auto
termination
  by (relation "measure id") auto

declare str_nat.simps [simp del]

definition str_int :: "int \<Rightarrow> string" where
  \<comment> \<open>\<open>str(i)\<close>, which an f-string applies to \<open>{num_members}\<close>\<close>
  "str_int i = (if i < 0 then ''-'' @ str_nat (nat (- i)) else str_nat (nat i))"

fun format_2f :: "pyfloat \<Rightarrow> string" where
  \<comment> \<open>the format specification \<open>.2f\<close>: the exact value rounded to two decimals,
      ties to even\<close>
  "format_2f (Fin r) =
     (let n = nat (round_half_even (\<bar>r\<bar> * 100));
          s = str_nat (n div 100) @ ''.'' @ [digit_char (n div 10 mod 10), digit_char (n mod 10)]
      in if r < 0 then ''-'' @ s else s)"
| "format_2f PInf = ''inf''"
| "format_2f NInf = ''-inf''"
| "format_2f NaN = ''nan''"

definition rjust :: "nat \<Rightarrow> string \<Rightarrow> string" where
  "rjust width s = replicate (width - length s) CHR '' '' @ s"

definition format_10_2f :: "pyfloat \<Rightarrow> string" where
  \<comment> \<open>the format specification \<open>>10.2f\<close>\<close>
  "format_10_2f x = rjust 10 (format_2f x)"

definition center :: "nat \<Rightarrow> string \<Rightarrow> string" where
  \<comment> \<open>\<open>str.center\<close>: when the padding is odd, the extra blank goes to the left only if
      the width is odd too\<close>
  "center width s =
     (if width \<le> length s then s
      else (let marg = width - length s;
                left = marg div 2 + (marg mod 2) * (width mod 2)
            in replicate left CHR '' '' @ s @ replicate (marg - left) CHR '' ''))"

definition newline :: string where
  "newline = [CHR 0x0A]"

fun str_join :: "string \<Rightarrow> string list \<Rightarrow> string" where
  "str_join sep [] = []"
| "str_join sep [x] = x"
| "str_join sep (x # y # ys) = x @ sep @ str_join sep (y # ys)"

subsection \<open>\<open>get_summary\<close>\<close>

fun feature_lines :: "manager \<Rightarrow> string list \<Rightarrow> py_error + string list" where
  \<comment> \<open>the loop \<open>for feature in feature_names\<close>, which reads each cost from the catalog\<close>
  "feature_lines self [] = Inr []"
| "feature_lines self (feature # rest) =
     (case additional_features self feature of
        None \<Rightarrow> Inl (KeyError feature)
      | Some f \<Rightarrow>
          (case feature_lines self rest of
             Inl e \<Rightarrow> Inl e
           | Inr ls \<Rightarrow> Inr ((''  - '' @ feature @ '': $'' @ format_2f (f_cost f)) # ls)))"

definition selection_lines ::
  "string \<Rightarrow> string list \<Rightarrow> int \<Rightarrow> PremiumFeatureLevel \<Rightarrow> string list \<Rightarrow> string list" where
  \<comment> \<open>everything appended before the cost breakdown; \<open>fl\<close> holds the feature lines\<close>
  "selection_lines plan_name feature_names num_members premium_level fl =
     [newline @ replicate 60 CHR ''='',
      center 60 ''MEMBERSHIP SUMMARY'',
      replicate 60 CHR ''='',
      newline @ ''Membership Plan: '' @ plan_name,
      ''Number of Members: '' @ str_int num_members]
     @ (if feature_names \<noteq> [] then ''Additional Features:'' # fl
        else [''Additional Features: None''])
     @ (if premium_level \<noteq> NONE then [''Premium Level: '' @ level_value premium_level]
        else [])"

definition breakdown_lines :: "breakdown \<Rightarrow> string list" where
  "breakdown_lines b =
     [newline @ replicate 60 CHR ''-'',
      center 60 ''COST BREAKDOWN'',
      replicate 60 CHR ''-'',
      ''Base Membership Cost:        $'' @ format_10_2f (bd_base_cost b)]
     @ (if fgt (bd_features_cost b) (of_pyint 0)
        then [''Additional Features Cost:    $'' @ format_10_2f (bd_features_cost b),
              ''Subtotal:                    $'' @ format_10_2f (bd_subtotal b)]
        else [])
     @ (if fgt (bd_group_discount b) (of_pyint 0)
        then [''Group Discount (10%):       -$'' @ format_10_2f (bd_group_discount b),
              ''After Group Discount:        $'' @ format_10_2f (bd_after_group_discount b)]
        else [])
     @ (if fgt (bd_special_offer_discount b) (of_pyint 0)
        then [''Special Offer Discount:     -$'' @ format_10_2f (bd_special_offer_discount b),
              ''After Special Discount:      $'' @ format_10_2f (bd_after_special_discount b)]
        else [])
     @ (if fgt (bd_premium_surcharge b) (of_pyint 0)
        then [''Premium Surcharge (15%):     $'' @ format_10_2f (bd_premium_surcharge b)]
        else [])
     @ [replicate 60 CHR ''-'',
        ''TOTAL COST:                  $'' @ format_10_2f (bd_total_cost b),
        replicate 60 CHR ''='' @ newline]"

definition summary_lines ::
  "manager \<Rightarrow> string \<Rightarrow> string list \<Rightarrow> int \<Rightarrow> PremiumFeatureLevel
     \<Rightarrow> py_error + string list" where
  \<comment> \<open>the list \<open>summary\<close> as it stands before the final \<open>join\<close>\<close>
  "summary_lines self plan_name feature_names num_members premium_level =
     (case calculate_total_cost self plan_name feature_names num_members premium_level of
        Inl e \<Rightarrow> Inl e
      | Inr (total_cost, breakdown) \<Rightarrow>
          (case feature_lines self feature_names of
             Inl e \<Rightarrow> Inl e
           | Inr fl \<Rightarrow>
               Inr (selection_lines plan_name feature_names num_members premium_level fl
                    @ breakdown_lines breakdown)))"

definition get_summary ::
  "manager \<Rightarrow> string \<Rightarrow> string list \<Rightarrow> int \<Rightarrow> PremiumFeatureLevel \<Rightarrow> py_error + string" where
  "get_summary self plan_name feature_names num_members premium_level =
     (case summary_lines self plan_name feature_names num_members premium_level of
        Inl e \<Rightarrow> Inl e
      | Inr summary \<Rightarrow> Inr (str_join newline summary))"

section \<open>Methods as state transformers\<close>

text \<open>
  A method call runs on the object: it starts in a state of the object and ends in one.
  Each method is written again here as a state transformer whose only accesses to the
  object are those of its body: reading \<open>self.membership_plans\<close> or
  \<open>self.additional_features\<close>, and calling another method on \<open>self\<close>.  An assignment
  would be a \<open>State_Monad.update\<close>; \<open>assign_feature_available\<close> is the one the tests
  perform from outside the class.
\<close>

type_synonym 'a py_method = "(manager, 'a) state"

definition self_membership_plans :: "(string \<rightharpoonup> MembershipPlan) py_method" where
  "self_membership_plans = do { self \<leftarrow> State_Monad.get;
                                State_Monad.return (membership_plans self) }"

definition self_additional_features :: "(string \<rightharpoonup> AdditionalFeature) py_method" where
  "self_additional_features = do { self \<leftarrow> State_Monad.get;
                                   State_Monad.return (additional_features self) }"

definition self_membership_plans_values :: "MembershipPlan list py_method" where
  \<comment> \<open>\<open>self.membership_plans.values()\<close>\<close>
  "self_membership_plans_values = do { self \<leftarrow> State_Monad.get;
     State_Monad.return (List.map_filter (membership_plans self) (plan_order self)) }"

definition self_additional_features_values :: "AdditionalFeature list py_method" where
  \<comment> \<open>\<open>self.additional_features.values()\<close>\<close>
  "self_additional_features_values = do { self \<leftarrow> State_Monad.get;
     State_Monad.return (List.map_filter (additional_features self) (feature_order self)) }"

definition assign_feature_available :: "string \<Rightarrow> bool \<Rightarrow> unit py_method" where
  \<comment> \<open>\<open>manager.additional_features[feature_name].available = flag\<close>\<close>
  "assign_feature_available feature_name flag =
     State_Monad.update (\<lambda>self. set_feature_available self feature_name flag)"

definition get_available_membership_plans_m :: "MembershipPlan list py_method" where
  "get_available_membership_plans_m = do {
     plans \<leftarrow> self_membership_plans_values;
     State_Monad.return (filter p_available plans) }"

definition get_available_features_m :: "AdditionalFeature list py_method" where
  "get_available_features_m = do {
     features \<leftarrow> self_additional_features_values;
     State_Monad.return (filter f_available features) }"

definition validate_membership_plan_m :: "string \<Rightarrow> (bool \<times> string option) py_method" where
  "validate_membership_plan_m plan_name = do {
     plans \<leftarrow> self_membership_plans;
     case plans plan_name of
       None \<Rightarrow> State_Monad.return
         (False, Some (''Membership plan '' @ quoted plan_name @ '' does not exist.''))
     | Some plan \<Rightarrow>
         if \<not> p_available plan
         then State_Monad.return
           (False, Some (''Membership plan '' @ quoted plan_name
              @ '' is currently unavailable.''))
         else State_Monad.return (True, None) }"

fun validate_features_loop_m :: "string list \<Rightarrow> (bool \<times> string option) py_method" where
  "validate_features_loop_m [] = State_Monad.return (True, None)"
| "validate_features_loop_m (feature_name # rest) = do {
     features \<leftarrow> self_additional_features;
     case features feature_name of
       None \<Rightarrow> State_Monad.return
         (False, Some (''Additional feature '' @ quoted feature_name @ '' does not exist.''))
     | Some feature \<Rightarrow>
         if \<not> f_available feature
         then State_Monad.return
           (False, Some (''Additional feature '' @ quoted feature_name
              @ '' is currently unavailable.''))
         else validate_features_loop_m rest }"

fun validate_features_m :: "pyval \<Rightarrow> (bool \<times> string option) py_method" where
  "validate_features_m (PyList feature_names) = validate_features_loop_m feature_names"
| "validate_features_m _ = State_Monad.return (False, Some ''Features must be provided as a list.'')"

definition validate_num_members_m :: "pyval \<Rightarrow> (bool \<times> string option) py_method" where
  \<comment> \<open>the body does not touch \<open>self\<close>\<close>
  "validate_num_members_m num_members =
     (case as_int num_members of
        None \<Rightarrow> State_Monad.return (False, Some ''Number of members must be an integer.'')
      | Some n \<Rightarrow>
          if n < 1
          then State_Monad.return (False, Some ''Number of members must be at least 1.'')
          else if n > 10
          then State_Monad.return (False, Some ''Number of members cannot exceed 10.'')
          else State_Monad.return (True, None))"

definition calculate_base_cost_m :: "string \<Rightarrow> (py_error + pyfloat) py_method" where
  "calculate_base_cost_m plan_name = do {
     plans \<leftarrow> self_membership_plans;
     case plans plan_name of
       None \<Rightarrow> State_Monad.return (Inl (KeyError plan_name))
     | Some plan \<Rightarrow> State_Monad.return (Inr (p_base_cost plan)) }"

fun features_cost_loop_m :: "pyfloat \<Rightarrow> string list \<Rightarrow> (py_error + pyfloat) py_method" where
  "features_cost_loop_m total' [] = State_Monad.return (Inr total')"
| "features_cost_loop_m total' (feature_name # rest) = do {
     features \<leftarrow> self_additional_features;
     case features feature_name of
       None \<Rightarrow> State_Monad.return (Inl (KeyError feature_name))
     | Some feature \<Rightarrow> features_cost_loop_m (fadd total' (f_cost feature)) rest }"

definition calculate_features_cost_m :: "string list \<Rightarrow> (py_error + pyfloat) py_method" where
  "calculate_features_cost_m feature_names = features_cost_loop_m (Fin 0) feature_names"

definition calculate_group_discount_m :: "pyfloat \<Rightarrow> int \<Rightarrow> (pyfloat \<times> pyfloat) py_method" where
  \<comment> \<open>reads two class constants through \<open>self\<close>, nothing of the instance\<close>
  "calculate_group_discount_m base_total num_members =
     (if num_members < GROUP_DISCOUNT_THRESHOLD then State_Monad.return (base_total, Fin 0)
      else (let discount_amount = fmul base_total GROUP_DISCOUNT_PERCENTAGE;
                discounted_cost = fsub base_total discount_amount
            in State_Monad.return (discounted_cost, discount_amount)))"

definition calculate_special_offer_discount_m :: "pyfloat \<Rightarrow> (pyfloat \<times> pyfloat) py_method" where
  "calculate_special_offer_discount_m cost =
     (let discount_amount =
            special_offer_loop cost (Fin 0) (sorted_reverse SPECIAL_OFFER_DISCOUNTS);
          discounted_cost = fsub cost discount_amount
      in State_Monad.return (discounted_cost, discount_amount))"

definition calculate_premium_surcharge_m ::
  "pyfloat \<Rightarrow> PremiumFeatureLevel \<Rightarrow> (pyfloat \<times> pyfloat) py_method" where
  "calculate_premium_surcharge_m cost premium_level =
     (if premium_level = NONE then State_Monad.return (cost, Fin 0)
      else (let surcharge_amount = fmul cost PREMIUM_SURCHARGE_PERCENTAGE;
                total_with_surcharge = fadd cost surcharge_amount
            in State_Monad.return (total_with_surcharge, surcharge_amount)))"

definition calculate_total_cost_m ::
  "string \<Rightarrow> string list \<Rightarrow> int \<Rightarrow> PremiumFeatureLevel
     \<Rightarrow> (py_error + (pyfloat \<times> breakdown)) py_method" where
  "calculate_total_cost_m plan_name feature_names num_members premium_level = do {
     r1 \<leftarrow> calculate_base_cost_m plan_name;
     case r1 of
       Inl e \<Rightarrow> State_Monad.return (Inl e)
     | Inr base_cost \<Rightarrow> do {
     r2 \<leftarrow> calculate_features_cost_m feature_names;
     case r2 of
       Inl e \<Rightarrow> State_Monad.return (Inl e)
     | Inr features_cost \<Rightarrow> do {
     let subtotal = fadd base_cost features_cost;
     (after_group, group_discount) \<leftarrow> calculate_group_discount_m subtotal num_members;
     (after_special, special_discount) \<leftarrow> calculate_special_offer_discount_m after_group;
     (total_with_surcharge, surcharge) \<leftarrow>
        calculate_premium_surcharge_m after_special premium_level;
     State_Monad.return (Inr (total_with_surcharge,
           \<lparr>bd_base_cost = base_cost,
            bd_features_cost = features_cost,
            bd_subtotal = subtotal,
            bd_group_discount = group_discount,
            bd_after_group_discount = after_group,
            bd_special_offer_discount = special_discount,
            bd_after_special_discount = after_special,
            bd_premium_surcharge = surcharge,
            bd_total_cost = total_with_surcharge\<rparr>)) } } }"

fun feature_lines_m :: "string list \<Rightarrow> (py_error + string list) py_method" where
  "feature_lines_m [] = State_Monad.return (Inr [])"
| "feature_lines_m (feature # rest) = do {
     features \<leftarrow> self_additional_features;
     case features feature of
       None \<Rightarrow> State_Monad.return (Inl (KeyError feature))
     | Some f \<Rightarrow> do {
         r \<leftarrow> feature_lines_m rest;
         case r of
           Inl e \<Rightarrow> State_Monad.return (Inl e)
         | Inr ls \<Rightarrow> State_Monad.return
             (Inr ((''  - '' @ feature @ '': $'' @ format_2f (f_cost f)) # ls)) } }"

definition get_summary_m ::
  "string \<Rightarrow> string list \<Rightarrow> int \<Rightarrow> PremiumFeatureLevel \<Rightarrow> (py_error + string) py_method" where
  "get_summary_m plan_name feature_names num_members premium_level = do {
     r \<leftarrow> calculate_total_cost_m plan_name feature_names num_members premium_level;
     case r of
       Inl e \<Rightarrow> State_Monad.return (Inl e)
     | Inr (total_cost, breakdown) \<Rightarrow> do {
         fl \<leftarrow> feature_lines_m feature_names;
         case fl of
           Inl e \<Rightarrow> State_Monad.return (Inl e)
         | Inr fl \<Rightarrow> State_Monad.return (Inr (str_join newline
             (selection_lines plan_name feature_names num_members premium_level fl
              @ breakdown_lines breakdown))) } }"

datatype method_call =
    GetAvailableMembershipPlans
  | GetAvailableFeatures
  | ValidateMembershipPlan string
  | ValidateFeatures pyval
  | ValidateNumMembers pyval
  | CalculateBaseCost string
  | CalculateFeaturesCost "string list"
  | CalculateGroupDiscount pyfloat int
  | CalculateSpecialOfferDiscount pyfloat
  | CalculatePremiumSurcharge pyfloat PremiumFeatureLevel
  | CalculateTotalCost string "string list" int PremiumFeatureLevel
  | GetSummary string "string list" int PremiumFeatureLevel

datatype method_result =
    Plans "MembershipPlan list"
  | Features "AdditionalFeature list"
  | Validation "bool \<times> string option"
  | Cost "py_error + pyfloat"
  | CostPair "pyfloat \<times> pyfloat"
  | TotalCost "py_error + (pyfloat \<times> breakdown)"
  | Summary "py_error + string"

fun call :: "method_call \<Rightarrow> method_result py_method" where
  \<comment> \<open>a call of a public method, its result tagged with its type\<close>
  "call GetAvailableMembershipPlans = do {
     r \<leftarrow> get_available_membership_plans_m;
     State_Monad.return (Plans r) }"
| "call GetAvailableFeatures = do {
     r \<leftarrow> get_available_features_m;
     State_Monad.return (Features r) }"
| "call (ValidateMembershipPlan plan_name) = do {
     r \<leftarrow> validate_membership_plan_m plan_name;
     State_Monad.return (Validation r) }"
| "call (ValidateFeatures feature_names) = do {
     r \<leftarrow> validate_features_m feature_names;
     State_Monad.return (Validation r) }"
| "call (ValidateNumMembers num_members) = do {
     r \<leftarrow> validate_num_members_m num_members;
     State_Monad.return (Validation r) }"
| "call (CalculateBaseCost plan_name) = do {
     r \<leftarrow> calculate_base_cost_m plan_name;
     State_Monad.return (Cost r) }"
| "call (CalculateFeaturesCost feature_names) = do {
     r \<leftarrow> calculate_features_cost_m feature_names;
     State_Monad.return (Cost r) }"
| "call (CalculateGroupDiscount base_total num_members) = do {
     r \<leftarrow> calculate_group_discount_m base_total num_members;
     State_Monad.return (CostPair r) }"
| "call (CalculateSpecialOfferDiscount cost) = do {
     r \<leftarrow> calculate_special_offer_discount_m cost;
     State_Monad.return (CostPair r) }"
| "call (CalculatePremiumSurcharge cost premium_level) = do {
     r \<leftarrow> calculate_premium_surcharge_m cost premium_level;
     State_Monad.return (CostPair r) }"
| "call (CalculateTotalCost plan_name feature_names num_members premium_level) = do {
     r \<leftarrow> calculate_total_cost_m plan_name feature_names num_members premium_level;
     State_Monad.return (TotalCost r) }"
| "call (GetSummary plan_name feature_names num_members premium_level) = do {
     r \<leftarrow> get_summary_m plan_name feature_names num_members premium_level;
     State_Monad.return (Summary r) }"

section \<open>Notions used to state the properties\<close>

definition is_float :: "pyfloat \<Rightarrow> bool" where
  \<comment> \<open>the values a Python float can hold: a finite one is left alone by rounding\<close>
  "is_float x = (case x of Fin r \<Rightarrow> rnd r = Fin r | _ \<Rightarrow> True)"

text \<open>
  The closed form of the specification, in exact arithmetic and with every operation
  rounded: \<open>((subtotal * groupFactor) - specialDiscount) * (1 + surchargeFactor)\<close> with
  \<open>groupFactor\<close> 0.9 from two members on and 1.0 below, and \<open>surchargeFactor\<close> 0.15 for
  a premium tier and 0 for none.
\<close>

definition spec_group_factor :: "int \<Rightarrow> rat" where
  "spec_group_factor n = (if 2 \<le> n then 9/10 else 1)"

definition spec_surcharge_factor :: "PremiumFeatureLevel \<Rightarrow> rat" where
  "spec_surcharge_factor t = (if t = NONE then 0 else 15/100)"

definition spec_closed_form :: "rat \<Rightarrow> int \<Rightarrow> rat \<Rightarrow> PremiumFeatureLevel \<Rightarrow> rat" where
  "spec_closed_form subtotal n special t =
     ((subtotal * spec_group_factor n) - special) * (1 + spec_surcharge_factor t)"

definition spec_closed_form_float ::
  "pyfloat \<Rightarrow> int \<Rightarrow> pyfloat \<Rightarrow> PremiumFeatureLevel \<Rightarrow> pyfloat" where
  "spec_closed_form_float subtotal n special t =
     fmul (fsub (fmul subtotal (rnd (spec_group_factor n))) special)
          (fadd (Fin 1) (rnd (spec_surcharge_factor t)))"

definition feature_ok :: "manager \<Rightarrow> string \<Rightarrow> bool" where
  \<comment> \<open>the name is in the feature catalog and the feature is enabled\<close>
  "feature_ok self feature_name =
     (case additional_features self feature_name of None \<Rightarrow> False | Some f \<Rightarrow> f_available f)"

definition cost_of :: "manager \<Rightarrow> string \<Rightarrow> pyfloat" where
  \<comment> \<open>\<open>self.additional_features[name].cost\<close> for a name of the catalog\<close>
  "cost_of self feature_name = f_cost (the (additional_features self feature_name))"

definition has_line :: "string \<Rightarrow> string list \<Rightarrow> bool" where
  \<comment> \<open>some line of the report starts with the given label\<close>
  "has_line label ls = list_ex (\<lambda>l. take (length label) l = label) ls"

section \<open>Facts about rounding\<close>

text \<open>
  The exponent found by \<open>ilog2\<close> is the right one, a value that binary64 holds is left
  alone by \<open>rnd\<close>, every finite result of \<open>rnd\<close> is such a value, and a finite result
  \<open>y\<close> of rounding \<open>x\<close> has \<open>\<bar>y - x\<bar> \<le> 2^-53 * \<bar>x\<bar> + 2^-1075\<close>.
\<close>

lemma bitlen_rat_bounds:
  assumes "0 < p"
  shows "(2::rat) powi (bitlen p - 1) \<le> of_int p" and "of_int p < (2::rat) powi (bitlen p)"
proof -
  have b: "1 \<le> bitlen p" using assms bitlen_eq_zero_iff[of p] bitlen_nonneg[of p] by linarith
  from bitlen_bounds[OF assms] have l: "2 ^ nat (bitlen p - 1) \<le> p" and u: "p < 2 ^ nat (bitlen p)"
    by auto
  from l have "(of_int (2 ^ nat (bitlen p - 1)) :: rat) \<le> of_int p" by (rule of_int_le_iff[THEN iffD2])
  then show "(2::rat) powi (bitlen p - 1) \<le> of_int p" using b by (simp add: power_int_def)
  from u have "(of_int p :: rat) < of_int (2 ^ nat (bitlen p))" by (rule of_int_less_iff[THEN iffD2])
  then show "of_int p < (2::rat) powi (bitlen p)" using b by (simp add: power_int_def)
qed

lemma ilog2_bounds:
  assumes "0 < a"
  shows "2 powi (ilog2 a) \<le> a" and "a < 2 powi (ilog2 a + 1)"
proof -
  obtain p q where pq: "quotient_of a = (p, q)" by (cases "quotient_of a")
  have q0: "0 < q" using quotient_of_denom_pos[OF pq] .
  have a_eq: "a = of_int p / of_int q" using quotient_of_div[OF pq] .
  have p0: "0 < p" using assms q0 a_eq by (simp add: zero_less_divide_iff)
  let ?e0 = "bitlen p - bitlen q"
  have up: "of_int p < (2::rat) powi (bitlen p)" and lp: "(2::rat) powi (bitlen p - 1) \<le> of_int p"
    using bitlen_rat_bounds[OF p0] by auto
  have uq: "of_int q < (2::rat) powi (bitlen q)" and lq: "(2::rat) powi (bitlen q - 1) \<le> of_int q"
    using bitlen_rat_bounds[OF q0] by auto
  have qr: "(0::rat) < of_int q" using q0 by simp
  have lo: "2 powi (?e0 - 1) < a"
  proof -
    have "(2::rat) powi (?e0 - 1) * of_int q < 2 powi (?e0 - 1) * 2 powi (bitlen q)"
      using uq by (simp add: mult_strict_left_mono)
    also have "\<dots> = 2 powi (bitlen p - 1)"
      by (simp add: power_int_add[symmetric])
    also have "\<dots> \<le> of_int p" by (rule lp)
    finally show ?thesis using qr by (simp add: a_eq pos_less_divide_eq)
  qed
  have hi: "a < 2 powi (?e0 + 1)"
  proof -
    have "of_int p < (2::rat) powi (bitlen p)" by (rule up)
    also have "\<dots> = 2 powi (?e0 + 1) * 2 powi (bitlen q - 1)"
      by (simp add: power_int_add[symmetric])
    also have "\<dots> \<le> 2 powi (?e0 + 1) * of_int q"
      using lq by (simp add: mult_left_mono)
    finally show ?thesis using qr by (simp add: a_eq pos_divide_less_eq)
  qed
  have il: "ilog2 a = (if 2 powi ?e0 \<le> a then ?e0 else ?e0 - 1)"
    by (simp add: ilog2_def pq Let_def)
  show "2 powi (ilog2 a) \<le> a" using lo by (simp add: il)
  show "a < 2 powi (ilog2 a + 1)" using hi by (auto simp add: il)
qed

lemma pow2_less_iff: "(2::rat) powi m < 2 powi n \<longleftrightarrow> m < n"
proof
  assume h: "(2::rat) powi m < 2 powi n"
  show "m < n"
  proof (rule ccontr)
    assume "\<not> m < n"
    then have "n \<le> m" by simp
    then have "(2::rat) powi n \<le> 2 powi m" by (rule power_int_increasing) simp
    with h show False by simp
  qed
next
  assume "m < n"
  then show "(2::rat) powi m < 2 powi n" by (rule power_int_strict_increasing) simp
qed

lemma pow2_le_iff: "(2::rat) powi m \<le> 2 powi n \<longleftrightarrow> m \<le> n"
  using pow2_less_iff[of n m] by (simp add: not_less[symmetric])

lemma ilog2_unique:
  assumes "0 < a" "2 powi e \<le> a" "a < 2 powi (e + 1)"
  shows "ilog2 a = e"
proof -
  have l: "2 powi (ilog2 a) \<le> a" and u: "a < 2 powi (ilog2 a + 1)"
    using ilog2_bounds[OF assms(1)] by auto
  have "(2::rat) powi e < 2 powi (ilog2 a + 1)" using assms(2) u by linarith
  then have 1: "e < ilog2 a + 1" by (simp add: pow2_less_iff)
  have "(2::rat) powi (ilog2 a) < 2 powi (e + 1)" using assms(3) l by linarith
  then have 2: "ilog2 a < e + 1" by (simp add: pow2_less_iff)
  from 1 2 show ?thesis by linarith
qed


lemma rhe_of_int: "round_half_even (of_int k) = k"
  by (simp add: round_half_even_def)

lemma rhe_ge: "of_int k \<le> r \<Longrightarrow> k \<le> round_half_even r"
proof -
  assume "of_int k \<le> r"
  then have "k \<le> \<lfloor>r\<rfloor>" by (simp add: le_floor_iff)
  then show ?thesis by (simp add: round_half_even_def Let_def)
qed

lemma rhe_le: "r \<le> of_int k \<Longrightarrow> round_half_even r \<le> k"
proof -
  assume h: "r \<le> of_int k"
  then have fk: "\<lfloor>r\<rfloor> \<le> k" by (simp add: floor_le_iff) 
  show ?thesis
  proof (cases "\<lfloor>r\<rfloor> = k")
    case True
    then have "of_int k \<le> r" using of_int_floor_le[of r] by simp
    with h have "r = of_int k" by simp
    then show ?thesis by (simp add: rhe_of_int)
  next
    case False
    with fk have "\<lfloor>r\<rfloor> + 1 \<le> k" by simp
    then show ?thesis by (simp add: round_half_even_def Let_def)
  qed
qed

lemma pow2_pos: "(0::rat) < 2 powi q"
  by (simp add: zero_less_power_int)

lemma rnd_repr_pos:
  assumes m0: "0 < m" and m53: "m < 9007199254740992" and ql: "- 1074 \<le> q" and qu: "q \<le> 971"
    and nrm: "4503599627370496 \<le> m \<or> q = - 1074"
  shows "rnd (of_int m * 2 powi q) = Fin (of_int m * 2 powi q)"
proof -
  let ?r = "of_int m * (2::rat) powi q"
  have rpos: "0 < ?r" using m0 pow2_pos[of q] by simp
  have l: "2 powi (ilog2 ?r) \<le> ?r" and u: "?r < 2 powi (ilog2 ?r + 1)"
    using ilog2_bounds[OF rpos] by auto
  have "(of_int m :: rat) < of_int 9007199254740992" using m53 by (simp only: of_int_less_iff)
  then have "(of_int m :: rat) < 2 powi 53" by simp
  then have "?r < 2 powi 53 * 2 powi q" using pow2_pos[of q] by (simp add: mult_strict_right_mono)
  also have "\<dots> = 2 powi (53 + q)" by (simp add: power_int_add)
  finally have "(2::rat) powi (ilog2 ?r) < 2 powi (53 + q)" using l by linarith
  then have le: "ilog2 ?r - 52 \<le> q" by (simp add: pow2_less_iff)
  have mx: "max (ilog2 ?r - 52) (- 1074) = q"
  proof (cases "q = - 1074")
    case True
    with le show ?thesis by simp
  next
    case False
    with nrm have "4503599627370496 \<le> m" by simp
    then have "(of_int 4503599627370496 :: rat) \<le> of_int m" by (simp only: of_int_le_iff)
    then have "(2::rat) powi 52 \<le> of_int m" by simp
    then have "(2::rat) powi 52 * 2 powi q \<le> ?r" using pow2_pos[of q] by (simp add: mult_right_mono)
    then have "(2::rat) powi (52 + q) \<le> ?r" by (simp add: power_int_add)
    with u have "(2::rat) powi (52 + q) < 2 powi (ilog2 ?r + 1)" by linarith
    then have "q \<le> ilog2 ?r - 52" by (simp add: pow2_less_iff)
    with le ql show ?thesis by simp
  qed
  have dv: "?r / 2 powi q = of_int m" by simp
  have novf: "\<not> (971 < q \<or> (q = 971 \<and> 9007199254740992 \<le> m))" using qu m53 by simp
  have "round_mag ?r = Fin ?r"
    unfolding round_mag_def Let_def mx dv rhe_of_int using novf by simp
  then show ?thesis using rpos by (simp add: rnd_def)
qed


lemma rnd_minus: "rnd (- x) = fneg (rnd x)"
proof -
  have ff: "fneg (fneg v) = v" for v by (cases v) simp_all
  show ?thesis by (cases "x = 0"; cases "0 < x") (simp_all add: rnd_def ff)
qed

lemma rnd_idem_pos:
  assumes x0: "0 < x" and rx: "rnd x = Fin y"
  shows "rnd y = Fin y"
proof -
  define q where "q = max (ilog2 x - 52) (- 1074)"
  define m where "m = round_half_even (x / 2 powi q)"
  have "round_mag x = (if 971 < q \<or> (q = 971 \<and> 9007199254740992 \<le> m) then PInf
                      else Fin (of_int m * 2 powi q))"
    unfolding round_mag_def Let_def q_def[symmetric] unfolding m_def[symmetric] by (rule refl)
  then have rdef: "rnd x = (if 971 < q \<or> (q = 971 \<and> 9007199254740992 \<le> m) then PInf
                      else Fin (of_int m * 2 powi q))"
    using x0 by (simp add: rnd_def)
  from rx rdef have novf: "\<not> (971 < q \<or> (q = 971 \<and> 9007199254740992 \<le> m))"
    and y: "y = of_int m * 2 powi q"
    by (auto split: if_splits)
  have ql: "- 1074 \<le> q" by (simp add: q_def)
  have qe: "ilog2 x - 52 \<le> q" by (simp add: q_def)
  have qu: "q \<le> 971" using novf by simp
  have l: "2 powi (ilog2 x) \<le> x" and u: "x < 2 powi (ilog2 x + 1)"
    using ilog2_bounds[OF x0] by auto
  have m_ge0: "0 \<le> m"
  proof -
    have "(of_int 0 :: rat) \<le> x / 2 powi q" using x0 pow2_pos[of q] by simp
    then show ?thesis unfolding m_def by (rule rhe_ge)
  qed
  have m_le: "m \<le> 9007199254740992"
  proof -
    have "(2::rat) powi (ilog2 x + 1) \<le> 2 powi (53 + q)" using qe by (simp add: pow2_le_iff)
    with u have "x < 2 powi (53 + q)" by linarith
    also have "\<dots> = 2 powi 53 * 2 powi q" by (simp add: power_int_add)
    finally have "x / 2 powi q < 2 powi 53" using pow2_pos[of q] by (simp add: pos_divide_less_eq)
    then have "x / 2 powi q \<le> of_int 9007199254740992" by simp
    then show ?thesis unfolding m_def by (rule rhe_le)
  qed
  have m_nrm: "4503599627370496 \<le> m" if "q \<noteq> - 1074"
  proof -
    from that have qeq: "q = ilog2 x - 52" by (simp add: q_def max_def split: if_splits)
    have "(2::rat) powi (ilog2 x) = 2 powi (52 + q)" by (simp add: qeq)
    also have "\<dots> = 2 powi 52 * 2 powi q" by (simp add: power_int_add)
    finally have "(2::rat) powi 52 * 2 powi q \<le> x" using l by simp
    then have "(2::rat) powi 52 \<le> x / 2 powi q" using pow2_pos[of q] by (simp add: pos_le_divide_eq)
    then have "of_int 4503599627370496 \<le> x / 2 powi q" by simp
    then show ?thesis unfolding m_def by (rule rhe_ge)
  qed
  consider "m = 0" | "0 < m" "m < 9007199254740992" | "m = 9007199254740992"
    using m_ge0 m_le by linarith
  then show ?thesis
  proof cases
    case 1
    then show ?thesis by (simp add: y rnd_def)
  next
    case 2
    have "4503599627370496 \<le> m \<or> q = - 1074" using m_nrm by blast
    from rnd_repr_pos[OF 2(1) 2(2) ql qu this] show ?thesis by (simp add: y)
  next
    case 3
    with novf qu have q970: "q + 1 \<le> 971" by simp
    have ql': "- 1074 \<le> q + 1" using ql by simp
    have yy: "y = of_int 4503599627370496 * 2 powi (q + 1)"
      by (simp add: y 3 power_int_add)
    have "rnd (of_int 4503599627370496 * 2 powi (q + 1)) = Fin (of_int 4503599627370496 * 2 powi (q + 1))"
      by (rule rnd_repr_pos[OF _ _ ql' q970]) simp_all
    then show ?thesis by (simp only: yy)
  qed
qed

lemma rnd_idem: "rnd x = Fin y \<Longrightarrow> rnd y = Fin y"
proof -
  assume rx: "rnd x = Fin y"
  consider "x = 0" | "0 < x" | "x < 0" by linarith
  then show ?thesis
  proof cases
    case 1
    with rx show ?thesis by (simp add: rnd_def)
  next
    case 2
    then show ?thesis using rx by (rule rnd_idem_pos)
  next
    case 3
    then have p: "0 < - x" by simp
    have "rnd (- x) = Fin (- y)" by (simp add: rnd_minus rx)
    from rnd_idem_pos[OF p this] have "rnd (- y) = Fin (- y)" .
    then have "fneg (rnd y) = Fin (- y)" by (simp add: rnd_minus)
    then show ?thesis by (cases "rnd y") simp_all
  qed
qed

lemma rhe_err: "\<bar>of_int (round_half_even r) - r\<bar> \<le> 1/2"
proof -
  have a: "of_int \<lfloor>r\<rfloor> \<le> r" and b: "r < of_int \<lfloor>r\<rfloor> + 1" by linarith+
  show ?thesis using a b by (auto simp add: round_half_even_def Let_def abs_le_iff)
qed

lemma round_mag_err:
  assumes a0: "0 < a" and r: "round_mag a = Fin y"
  shows "\<bar>y - a\<bar> \<le> unit_roundoff * a + eta"
proof -
  define q where "q = max (ilog2 a - 52) (- 1074)"
  define m where "m = round_half_even (a / 2 powi q)"
  have "round_mag a = (if 971 < q \<or> (q = 971 \<and> 9007199254740992 \<le> m) then PInf
                      else Fin (of_int m * 2 powi q))"
    unfolding round_mag_def Let_def q_def[symmetric] unfolding m_def[symmetric] by (rule refl)
  with r have y: "y = of_int m * 2 powi q" by (auto split: if_splits)
  have p: "(0::rat) < 2 powi q" by (rule pow2_pos)
  have "\<bar>of_int m - a / 2 powi q\<bar> \<le> 1/2" unfolding m_def by (rule rhe_err)
  then have "\<bar>of_int m - a / 2 powi q\<bar> * 2 powi q \<le> 1/2 * 2 powi q"
    using p by (simp add: mult_right_mono)
  moreover have "\<bar>of_int m - a / 2 powi q\<bar> * 2 powi q = \<bar>y - a\<bar>"
  proof -
    have "\<bar>of_int m - a / 2 powi q\<bar> * 2 powi q = \<bar>(of_int m - a / 2 powi q) * 2 powi q\<bar>"
      using p by (simp add: abs_mult)
    also have "(of_int m - a / 2 powi q) * 2 powi q = y - a"
      using p by (simp add: y left_diff_distrib)
    finally show ?thesis .
  qed
  ultimately have e: "\<bar>y - a\<bar> \<le> 1/2 * 2 powi q" by simp
  have l: "2 powi (ilog2 a) \<le> a" using ilog2_bounds[OF a0] by auto
  have "1/2 * (2::rat) powi q \<le> unit_roundoff * a + eta"
  proof (cases "q = - 1074")
    case True
    have "(2::rat) powi (- 1075) = 2 powi (- 1 + - 1074)" by simp
    also have "\<dots> = 2 powi (- 1) * 2 powi (- 1074)" by (rule power_int_add) simp
    finally have "1/2 * (2::rat) powi q = eta" by (simp only: True eta_def power_int_minus1_right inverse_eq_divide)
    moreover have "0 \<le> unit_roundoff * a" using a0 by (simp add: unit_roundoff_def)
    ultimately show ?thesis by linarith
  next
    case False
    then have qeq: "q = ilog2 a - 52" by (simp add: q_def max_def split: if_splits)
    have "(2::rat) powi (ilog2 a) = 2 powi (52 + q)" by (simp add: qeq)
    also have "\<dots> = 2 powi 52 * 2 powi q" by (simp add: power_int_add)
    finally have "4503599627370496 * (2::rat) powi q \<le> a" using l by simp
    then have "1/2 * (2::rat) powi q \<le> unit_roundoff * a" by (simp add: unit_roundoff_def)
    moreover have "0 \<le> eta" by (simp add: eta_def)
    ultimately show ?thesis by linarith
  qed
  with e show ?thesis by linarith
qed

lemma rnd_err:
  assumes "rnd x = Fin y"
  shows "\<bar>y - x\<bar> \<le> unit_roundoff * \<bar>x\<bar> + eta"
proof -
  consider "x = 0" | "0 < x" | "x < 0" by linarith
  then show ?thesis
  proof cases
    case 1
    with assms show ?thesis by (simp add: rnd_def eta_def)
  next
    case 2
    with assms have "round_mag x = Fin y" by (simp add: rnd_def)
    from round_mag_err[OF 2 this] 2 show ?thesis by simp
  next
    case 3
    then have p: "0 < - x" by simp
    from assms 3 have "fneg (round_mag (- x)) = Fin y" by (simp add: rnd_def)
    then have "round_mag (- x) = Fin (- y)" by (cases "round_mag (- x)") simp_all
    from round_mag_err[OF p this] 3 show ?thesis by simp
  qed
qed

section \<open>Facts about the stages\<close>

lemma group_pct: "GROUP_DISCOUNT_PERCENTAGE = Fin (3602879701896397 / 36028797018963968)"
  unfolding GROUP_DISCOUNT_PERCENTAGE_def by code_simp

lemma surcharge_pct: "PREMIUM_SURCHARGE_PERCENTAGE = Fin (5404319552844595 / 36028797018963968)"
  unfolding PREMIUM_SURCHARGE_PERCENTAGE_def by code_simp

lemma fadd_err: "fadd (Fin a) (Fin b) = Fin y \<Longrightarrow> \<bar>y - (a + b)\<bar> \<le> unit_roundoff * \<bar>a + b\<bar> + eta"
  by (simp add: rnd_err)

lemma fsub_err: "fsub (Fin a) (Fin b) = Fin y \<Longrightarrow> \<bar>y - (a - b)\<bar> \<le> unit_roundoff * \<bar>a - b\<bar> + eta"
  using rnd_err[of "a - b" y] by (simp add: fsub_def)

lemma fmul_err: "fmul (Fin a) (Fin b) = Fin y \<Longrightarrow> \<bar>y - a * b\<bar> \<le> unit_roundoff * \<bar>a * b\<bar> + eta"
  by (simp add: rnd_err)

lemma eta_nonneg: "0 \<le> eta"
  by (simp add: eta_def)

lemma group_discount_bound:
  assumes r: "calculate_group_discount (Fin s) n = (Fin y, Fin d)" and n: "2 \<le> n"
  shows "\<bar>y - 9/10 * s\<bar> \<le> \<bar>s\<bar> / 4503599627370496 + 3 * eta"
proof -
  define c :: rat where "c = 3602879701896397 / 36028797018963968"
  define A where "A = \<bar>s\<bar>"
  have A0: "0 \<le> A" by (simp add: A_def)
  have "calculate_group_discount (Fin s) n
          = (fsub (Fin s) (fmul (Fin s) (Fin c)), fmul (Fin s) (Fin c))"
    using n by (simp add: calculate_group_discount_def GROUP_DISCOUNT_THRESHOLD_def group_pct
          Let_def c_def del: fmul.simps)
  with r have eq: "(fsub (Fin s) (fmul (Fin s) (Fin c)), fmul (Fin s) (Fin c)) = (Fin y, Fin d)"
    by (simp only:)
  have d: "fmul (Fin s) (Fin c) = Fin d" using eq[unfolded prod.inject] by (rule conjunct2)
  have "fsub (Fin s) (fmul (Fin s) (Fin c)) = Fin y" using eq[unfolded prod.inject] by (rule conjunct1)
  then have y: "fsub (Fin s) (Fin d) = Fin y" by (simp only: d)
  have sc: "\<bar>s * c\<bar> = c * A" by (simp add: abs_mult A_def c_def)
  have e1: "\<bar>d - s * c\<bar> \<le> unit_roundoff * (c * A) + eta" using fmul_err[OF d] by (simp only: sc)
  have e2: "\<bar>y - (s - d)\<bar> \<le> unit_roundoff * \<bar>s - d\<bar> + eta" by (rule fsub_err[OF y])
  have dd: "\<bar>d\<bar> \<le> c * A + (unit_roundoff * (c * A) + eta)"
    using e1 sc by linarith
  have sd: "\<bar>s - d\<bar> \<le> A + (c * A + (unit_roundoff * (c * A) + eta))"
    using dd A_def by linarith
  have u0: "0 \<le> unit_roundoff" by (simp add: unit_roundoff_def)
  have e2': "\<bar>y - (s - d)\<bar> \<le> unit_roundoff * (A + (c * A + (unit_roundoff * (c * A) + eta))) + eta"
    using e2 mult_left_mono[OF sd u0] by linarith
  have e3: "\<bar>s * (1/10 - c)\<bar> = A / 180143985094819840"
    by (simp add: abs_mult A_def c_def)
  have dec: "y - 9/10 * s = (y - (s - d)) - (d - s * c) + s * (1/10 - c)"
    by (simp add: algebra_simps)
  have "\<bar>y - 9/10 * s\<bar> \<le> \<bar>y - (s - d)\<bar> + \<bar>d - s * c\<bar> + \<bar>s * (1/10 - c)\<bar>"
    unfolding dec by linarith
  then have "\<bar>y - 9/10 * s\<bar> \<le>
      (unit_roundoff * (A + (c * A + (unit_roundoff * (c * A) + eta))) + eta)
      + (unit_roundoff * (c * A) + eta) + A / 180143985094819840"
    using e1 e2' e3 by linarith
  also have "\<dots> \<le> A / 4503599627370496 + 3 * eta"
    using A0 eta_nonneg by (simp add: unit_roundoff_def c_def algebra_simps)
  finally show ?thesis by (simp add: A_def)
qed


lemma premium_surcharge_bound:
  assumes r: "calculate_premium_surcharge (Fin x) t = (Fin y, Fin d)" and t: "t \<noteq> NONE"
  shows "\<bar>y - 115/100 * x\<bar> \<le> \<bar>x\<bar> / 4503599627370496 + 3 * eta"
proof -
  define c :: rat where "c = 5404319552844595 / 36028797018963968"
  define A where "A = \<bar>x\<bar>"
  have A0: "0 \<le> A" by (simp add: A_def)
  have "calculate_premium_surcharge (Fin x) t
          = (fadd (Fin x) (fmul (Fin x) (Fin c)), fmul (Fin x) (Fin c))"
    using t by (simp add: calculate_premium_surcharge_def surcharge_pct
          Let_def c_def del: fmul.simps)
  with r have eq: "(fadd (Fin x) (fmul (Fin x) (Fin c)), fmul (Fin x) (Fin c)) = (Fin y, Fin d)"
    by (simp only:)
  have d: "fmul (Fin x) (Fin c) = Fin d" using eq[unfolded prod.inject] by (rule conjunct2)
  have "fadd (Fin x) (fmul (Fin x) (Fin c)) = Fin y" using eq[unfolded prod.inject] by (rule conjunct1)
  then have y: "fadd (Fin x) (Fin d) = Fin y" by (simp only: d)
  have sc: "\<bar>x * c\<bar> = c * A" by (simp add: abs_mult A_def c_def)
  have e1: "\<bar>d - x * c\<bar> \<le> unit_roundoff * (c * A) + eta" using fmul_err[OF d] by (simp only: sc)
  have e2: "\<bar>y - (x + d)\<bar> \<le> unit_roundoff * \<bar>x + d\<bar> + eta" by (rule fadd_err[OF y])
  have dd: "\<bar>d\<bar> \<le> c * A + (unit_roundoff * (c * A) + eta)"
    using e1 sc by linarith
  have sd: "\<bar>x + d\<bar> \<le> A + (c * A + (unit_roundoff * (c * A) + eta))"
    using dd A_def by linarith
  have u0: "0 \<le> unit_roundoff" by (simp add: unit_roundoff_def)
  have e2': "\<bar>y - (x + d)\<bar> \<le> unit_roundoff * (A + (c * A + (unit_roundoff * (c * A) + eta))) + eta"
    using e2 mult_left_mono[OF sd u0] by linarith
  have e3: "\<bar>x * (c - 15/100)\<bar> = A / 180143985094819840"
    by (simp add: abs_mult A_def c_def)
  have dec: "y - 115/100 * x = (y - (x + d)) + (d - x * c) + x * (c - 15/100)"
    by (simp add: algebra_simps)
  have "\<bar>y - 115/100 * x\<bar> \<le> \<bar>y - (x + d)\<bar> + \<bar>d - x * c\<bar> + \<bar>x * (c - 15/100)\<bar>"
    unfolding dec by linarith
  then have "\<bar>y - 115/100 * x\<bar> \<le>
      (unit_roundoff * (A + (c * A + (unit_roundoff * (c * A) + eta))) + eta)
      + (unit_roundoff * (c * A) + eta) + A / 180143985094819840"
    using e1 e2' e3 by linarith
  also have "\<dots> \<le> A / 4503599627370496 + 3 * eta"
    using A0 eta_nonneg by (simp add: unit_roundoff_def c_def algebra_simps)
  finally show ?thesis by (simp add: A_def)
qed

lemma fadd_FinD: "fadd x y = Fin z \<Longrightarrow> \<exists>a b. x = Fin a \<and> y = Fin b"
  by (cases x; cases y) simp_all

lemma fmul_FinD: "fmul x y = Fin z \<Longrightarrow> \<exists>a b. x = Fin a \<and> y = Fin b"
  by (cases x; cases y) (simp_all split: if_splits)

lemma fsub_FinD: "fsub x y = Fin z \<Longrightarrow> \<exists>a b. x = Fin a \<and> y = Fin b"
  unfolding fsub_def by (cases x; cases y) simp_all


lemma round_mag_cases: "round_mag a = PInf \<or> (\<exists>y. round_mag a = Fin y)"
  by (simp add: round_mag_def Let_def)

lemma rnd_is_float: "is_float (rnd x)"
proof (cases "rnd x")
  case (Fin y)
  then show ?thesis by (simp add: is_float_def rnd_idem)
qed (simp_all add: is_float_def)

lemma fadd_is_float: "is_float (fadd x y)"
  by (cases x; cases y) (simp_all add: rnd_is_float, simp_all add: is_float_def)

lemma fsub_is_float: "is_float (fsub x y)"
  by (simp add: fsub_def fadd_is_float)

lemma fmul_is_float: "is_float (fmul x y)"
  by (cases x; cases y) (simp_all add: rnd_is_float, simp_all add: is_float_def)

lemma fadd_zero: "is_float x \<Longrightarrow> fadd x (Fin 0) = x"
  by (cases x) (simp_all add: is_float_def)

lemma fsub_zero: "is_float x \<Longrightarrow> fsub x (Fin 0) = x"
  by (cases x) (simp_all add: is_float_def fsub_def)

lemma sorted_tiers: "sorted_reverse SPECIAL_OFFER_DISCOUNTS = [(400, 50), (200, 20)]"
  by (simp add: sorted_reverse_def SPECIAL_OFFER_DISCOUNTS_def)

lemma special_offer_unfold:
  "calculate_special_offer_discount x =
     (fsub x (if fgt x (Fin 400) then Fin 50 else if fgt x (Fin 200) then Fin 20 else Fin 0),
      (if fgt x (Fin 400) then Fin 50 else if fgt x (Fin 200) then Fin 20 else Fin 0))"
  by (simp add: calculate_special_offer_discount_def sorted_tiers of_pyint_def Let_def)

lemma special_offer_by_value:
  "calculate_special_offer_discount (Fin x)
     = (fsub (Fin x) (Fin (if x \<le> 200 then 0 else if x \<le> 400 then 20 else 50)),
        Fin (if x \<le> 200 then 0 else if x \<le> 400 then 20 else 50))
   \<and> snd (calculate_special_offer_discount (Fin 200)) = Fin 0
   \<and> snd (calculate_special_offer_discount (Fin 400)) = Fin 20
   \<and> calculate_special_offer_discount PInf = (PInf, Fin 50)"
  by (simp add: special_offer_unfold fsub_def)

lemma total_cost_stages:
  assumes "calculate_total_cost self p fs n t = Inr (tot, b)"
  shows "calculate_base_cost self p = Inr (bd_base_cost b)
       \<and> calculate_features_cost self fs = Inr (bd_features_cost b)
       \<and> bd_subtotal b = fadd (bd_base_cost b) (bd_features_cost b)
       \<and> calculate_group_discount (bd_subtotal b) n
            = (bd_after_group_discount b, bd_group_discount b)
       \<and> calculate_special_offer_discount (bd_after_group_discount b)
            = (bd_after_special_discount b, bd_special_offer_discount b)
       \<and> calculate_premium_surcharge (bd_after_special_discount b) t
            = (bd_total_cost b, bd_premium_surcharge b)
       \<and> bd_total_cost b = tot"
  using assms
  by (auto simp add: calculate_total_cost_def Let_def split: sum.splits prod.splits)


lemma group_stage_bound:
  assumes r: "calculate_group_discount (Fin s) n = (Fin a, gd)"
  shows "\<bar>a - spec_group_factor n * s\<bar> \<le> \<bar>s\<bar> / 4503599627370496 + 3 * eta"
proof (cases "2 \<le> n")
  case True
  then have "gd = fmul (Fin s) GROUP_DISCOUNT_PERCENTAGE"
    and "fsub (Fin s) gd = Fin a"
    using r by (auto simp add: calculate_group_discount_def GROUP_DISCOUNT_THRESHOLD_def Let_def
        simp del: fmul.simps)
  then obtain d where "gd = Fin d" using fsub_FinD by blast
  with r have "calculate_group_discount (Fin s) n = (Fin a, Fin d)" by simp
  from group_discount_bound[OF this True] True show ?thesis by (simp add: spec_group_factor_def)
next
  case False
  then have "a = s" using r
    by (simp add: calculate_group_discount_def GROUP_DISCOUNT_THRESHOLD_def)
  then show ?thesis using False eta_nonneg by (simp add: spec_group_factor_def)
qed

lemma surcharge_stage_bound:
  assumes r: "calculate_premium_surcharge (Fin x) t = (Fin y, su)"
  shows "\<bar>y - (1 + spec_surcharge_factor t) * x\<bar> \<le> \<bar>x\<bar> / 4503599627370496 + 3 * eta"
proof (cases "t = NONE")
  case True
  then have "y = x" using r by (simp add: calculate_premium_surcharge_def)
  then show ?thesis using True eta_nonneg by (simp add: spec_surcharge_factor_def)
next
  case False
  then have "su = fmul (Fin x) PREMIUM_SURCHARGE_PERCENTAGE"
    and "fadd (Fin x) su = Fin y"
    using r by (auto simp add: calculate_premium_surcharge_def Let_def simp del: fmul.simps)
  then obtain d where "su = Fin d" using fadd_FinD by blast
  with r have "calculate_premium_surcharge (Fin x) t = (Fin y, Fin d)" by simp
  from premium_surcharge_bound[OF this False] False show ?thesis
    by (simp add: spec_surcharge_factor_def)
qed

lemma special_stage_bound:
  assumes r: "calculate_special_offer_discount (Fin a) = (Fin x, sdv)"
  shows "\<exists>sd. sdv = Fin sd \<and> 0 \<le> sd \<and> sd \<le> 50
           \<and> \<bar>x - (a - sd)\<bar> \<le> unit_roundoff * \<bar>a - sd\<bar> + eta"
proof -
  define sd :: rat where "sd = (if a \<le> 200 then 0 else if a \<le> 400 then 20 else 50)"
  have "calculate_special_offer_discount (Fin a) = (fsub (Fin a) (Fin sd), Fin sd)"
    using special_offer_by_value[of a] unfolding sd_def by (rule conjunct1)
  with r have 1: "sdv = Fin sd" and 2: "fsub (Fin a) (Fin sd) = Fin x" by auto
  have "0 \<le> sd \<and> sd \<le> 50" by (simp add: sd_def)
  with 1 fsub_err[OF 2] show ?thesis by blast
qed

lemma surcharge_FinD:
  "calculate_premium_surcharge x t = (Fin y, su) \<Longrightarrow> \<exists>r. x = Fin r"
  by (cases "t = NONE") (auto simp add: calculate_premium_surcharge_def Let_def dest: fadd_FinD)

lemma special_FinD:
  "calculate_special_offer_discount x = (Fin y, sdv) \<Longrightarrow> \<exists>r. x = Fin r"
  by (auto simp add: special_offer_unfold dest: fsub_FinD)

lemma closed_form_bound:
  assumes r: "calculate_total_cost self p fs n t = Inr (Fin tot, b)"
    and s: "bd_subtotal b = Fin s"
  shows "\<exists>sd. bd_special_offer_discount b = Fin sd
           \<and> \<bar>tot - spec_closed_form s n sd t\<bar> \<le> (\<bar>s\<bar> + sd) / 1125899906842624 + 9 * eta"
proof -
  note st = total_cost_stages[OF r]
  from st have "calculate_group_discount (bd_subtotal b) n
      = (bd_after_group_discount b, bd_group_discount b)" by blast
  then have g: "calculate_group_discount (Fin s) n
      = (bd_after_group_discount b, bd_group_discount b)" by (simp only: s)
  from st have sp: "calculate_special_offer_discount (bd_after_group_discount b)
      = (bd_after_special_discount b, bd_special_offer_discount b)" by blast
  from st have pr: "calculate_premium_surcharge (bd_after_special_discount b) t
      = (Fin tot, bd_premium_surcharge b)" by auto
  from surcharge_FinD[OF pr] obtain x where x: "bd_after_special_discount b = Fin x" by blast
  from special_FinD[OF sp[unfolded x]] obtain a where a: "bd_after_group_discount b = Fin a" by blast
  from special_stage_bound[OF sp[unfolded x a]] obtain sd where
    sd: "bd_special_offer_discount b = Fin sd" and sd0: "0 \<le> sd" and sd50: "sd \<le> 50"
    and e2: "\<bar>x - (a - sd)\<bar> \<le> unit_roundoff * \<bar>a - sd\<bar> + eta" by blast
  have e1: "\<bar>a - spec_group_factor n * s\<bar> \<le> \<bar>s\<bar> / 4503599627370496 + 3 * eta"
    by (rule group_stage_bound[OF g[unfolded a]])
  have e3: "\<bar>tot - (1 + spec_surcharge_factor t) * x\<bar> \<le> \<bar>x\<bar> / 4503599627370496 + 3 * eta"
    by (rule surcharge_stage_bound[OF pr[unfolded x]])
  define G where "G = spec_group_factor n * s"
  define F where "F = 1 + spec_surcharge_factor t"
  define S where "S = \<bar>s\<bar>"
  have F1: "1 \<le> F" and F2: "F \<le> 115/100"
    by (simp_all add: F_def spec_surcharge_factor_def)
  have GS: "\<bar>G\<bar> \<le> S" by (simp add: G_def S_def spec_group_factor_def abs_mult)
  have S0: "0 \<le> S" by (simp add: S_def)
  define B1 where "B1 = S / 4503599627370496 + 3 * eta"
  have b1: "\<bar>a - G\<bar> \<le> B1" using e1 by (simp add: G_def B1_def S_def)
  have aa: "\<bar>a - sd\<bar> \<le> S + B1 + sd" using b1 GS sd0 by linarith
  have u0: "0 \<le> unit_roundoff" by (simp add: unit_roundoff_def)
  define B2 where "B2 = unit_roundoff * (S + B1 + sd) + eta + B1"
  have b2: "\<bar>x - (G - sd)\<bar> \<le> B2"
    using e2 mult_left_mono[OF aa u0] b1 unfolding B2_def by linarith
  have xx: "\<bar>x\<bar> \<le> S + sd + B2" using b2 GS sd0 by linarith
  have b3: "\<bar>tot - F * x\<bar> \<le> (S + sd + B2) / 4503599627370496 + 3 * eta"
  proof -
    have "\<bar>x\<bar> / 4503599627370496 \<le> (S + sd + B2) / 4503599627370496"
      using xx by (simp add: divide_right_mono)
    with e3 show ?thesis unfolding F_def by linarith
  qed
  have dec: "tot - spec_closed_form s n sd t = (tot - F * x) + F * (x - (G - sd))"
    by (simp add: spec_closed_form_def F_def G_def algebra_simps)
  have "\<bar>F * (x - (G - sd))\<bar> = F * \<bar>x - (G - sd)\<bar>" using F1 by (simp add: abs_mult)
  also have "\<dots> \<le> 115/100 * \<bar>x - (G - sd)\<bar>" using F2 by (intro mult_right_mono) simp_all
  also have "\<dots> \<le> 115/100 * B2" using b2 by simp
  finally have b4: "\<bar>F * (x - (G - sd))\<bar> \<le> 115/100 * B2" .
  have "\<bar>tot - spec_closed_form s n sd t\<bar>
          \<le> (S + sd + B2) / 4503599627370496 + 3 * eta + 115/100 * B2"
    unfolding dec using b3 b4 by linarith
  also have "\<dots> \<le> (S + sd) / 1125899906842624 + 9 * eta"
    using S0 sd0 eta_nonneg unfolding B2_def B1_def unit_roundoff_def
    by (simp add: add_divide_distrib distrib_left) 
  finally show ?thesis using sd by (simp add: S_def)
qed

section \<open>Properties of the stage functions\<close>

lemma premium_surcharge_amount_bound:
  assumes r: "calculate_premium_surcharge (Fin x) t = (Fin y, Fin d)" and t: "t \<noteq> NONE"
  shows "\<bar>d - 15/100 * x\<bar> \<le> \<bar>x\<bar> / 36028797018963968 + eta"
proof -
  define c :: rat where "c = 5404319552844595 / 36028797018963968"
  define A where "A = \<bar>x\<bar>"
  have A0: "0 \<le> A" by (simp add: A_def)
  have "calculate_premium_surcharge (Fin x) t
          = (fadd (Fin x) (fmul (Fin x) (Fin c)), fmul (Fin x) (Fin c))"
    using t by (simp add: calculate_premium_surcharge_def surcharge_pct
          Let_def c_def del: fmul.simps)
  with r have eq: "(fadd (Fin x) (fmul (Fin x) (Fin c)), fmul (Fin x) (Fin c)) = (Fin y, Fin d)"
    by (simp only:)
  have d: "fmul (Fin x) (Fin c) = Fin d" using eq[unfolded prod.inject] by (rule conjunct2)
  have sc: "\<bar>x * c\<bar> = c * A" by (simp add: abs_mult A_def c_def)
  have e1: "\<bar>d - x * c\<bar> \<le> unit_roundoff * (c * A) + eta" using fmul_err[OF d] by (simp only: sc)
  have e3: "\<bar>x * (c - 15/100)\<bar> = A / 180143985094819840"
    by (simp add: abs_mult A_def c_def)
  have dec: "d - 15/100 * x = (d - x * c) + x * (c - 15/100)"
    by (simp add: algebra_simps)
  have "\<bar>d - 15/100 * x\<bar> \<le> \<bar>d - x * c\<bar> + \<bar>x * (c - 15/100)\<bar>"
    unfolding dec by (rule abs_triangle_ineq)
  then have "\<bar>d - 15/100 * x\<bar> \<le> (unit_roundoff * (c * A) + eta) + A / 180143985094819840"
    using e1 e3 by linarith
  also have "\<dots> \<le> A / 36028797018963968 + eta"
    using A0 by (simp add: unit_roundoff_def c_def)
  finally show ?thesis by (simp add: A_def)
qed

lemma premium_surcharge_100:
  "calculate_premium_surcharge (Fin 100) EXCLUSIVE_FACILITIES = (Fin 115, Fin 15)"
  "calculate_premium_surcharge (Fin 100) SPECIALIZED_TRAINING = (Fin 115, Fin 15)"
  unfolding calculate_premium_surcharge_def PREMIUM_SURCHARGE_PERCENTAGE_def
  by code_simp+

text \<open>
  C4.  For every cost \<open>c\<close> and premium tier \<open>t\<close>, \<open>calculate_premium_surcharge(c, t)\<close>
  returns surcharge 0 and total \<open>c\<close> when \<open>t\<close> is \<open>NONE\<close>, and surcharge \<open>c * 0.15\<close> and
  total \<open>c + c * 0.15\<close> for both other tiers, which are treated alike.  The product and
  the sum are the float operations of the program, and \<open>0.15\<close> is the float nearest to
  15/100: for finite values the surcharge is within \<open>\<bar>c\<bar> / 2^55 + 2^-1075\<close> of 15 percent
  of \<open>c\<close> and the total within \<open>\<bar>c\<bar> / 2^52 + 3 * 2^-1075\<close> of 115 percent of \<open>c\<close>.  On
  100.0 both tiers give the surcharge 15.0 and the total 115.0.  The first component of
  the result is the total, the second the surcharge.
\<close>

theorem premium_surcharge_by_tier:
  "calculate_premium_surcharge c NONE = (c, Fin 0)
   \<and> calculate_premium_surcharge c EXCLUSIVE_FACILITIES
       = (fadd c (fmul c (rnd (15 / 100))), fmul c (rnd (15 / 100)))
   \<and> calculate_premium_surcharge c SPECIALIZED_TRAINING
       = calculate_premium_surcharge c EXCLUSIVE_FACILITIES
   \<and> (\<forall>x y d. c = Fin x \<and> t \<noteq> NONE \<and> calculate_premium_surcharge c t = (Fin y, Fin d)
         \<longrightarrow> \<bar>d - 15/100 * x\<bar> \<le> \<bar>x\<bar> / 36028797018963968 + eta
             \<and> \<bar>y - 115/100 * x\<bar> \<le> \<bar>x\<bar> / 4503599627370496 + 3 * eta)
   \<and> calculate_premium_surcharge (Fin 100) NONE = (Fin 100, Fin 0)
   \<and> calculate_premium_surcharge (Fin 100) EXCLUSIVE_FACILITIES = (Fin 115, Fin 15)
   \<and> calculate_premium_surcharge (Fin 100) SPECIALIZED_TRAINING = (Fin 115, Fin 15)"
proof -
  have 1: "calculate_premium_surcharge c NONE = (c, Fin 0)"
    and 2: "calculate_premium_surcharge c EXCLUSIVE_FACILITIES
       = (fadd c (fmul c (rnd (15 / 100))), fmul c (rnd (15 / 100)))"
    and 3: "calculate_premium_surcharge c SPECIALIZED_TRAINING
       = calculate_premium_surcharge c EXCLUSIVE_FACILITIES"
    and 5: "calculate_premium_surcharge (Fin 100) NONE = (Fin 100, Fin 0)"
    by (simp_all add: calculate_premium_surcharge_def PREMIUM_SURCHARGE_PERCENTAGE_def Let_def)
  have 4: "\<forall>x y d. c = Fin x \<and> t \<noteq> NONE \<and> calculate_premium_surcharge c t = (Fin y, Fin d)
         \<longrightarrow> \<bar>d - 15/100 * x\<bar> \<le> \<bar>x\<bar> / 36028797018963968 + eta
             \<and> \<bar>y - 115/100 * x\<bar> \<le> \<bar>x\<bar> / 4503599627370496 + 3 * eta"
    using premium_surcharge_amount_bound premium_surcharge_bound by blast
  from 1 2 3 4 5 premium_surcharge_100 show ?thesis by (intro conjI)
qed

theorem premium_surcharge_by_tier_witness:
  "calculate_premium_surcharge (Fin (5999 / 100)) EXCLUSIVE_FACILITIES
     = (fadd (Fin (5999 / 100)) (fmul (Fin (5999 / 100)) (rnd (15 / 100))),
        fmul (Fin (5999 / 100)) (rnd (15 / 100)))
   \<and> calculate_premium_surcharge (Fin 100) EXCLUSIVE_FACILITIES = (Fin 115, Fin 15)
   \<and> \<bar>15 - 15/100 * 100\<bar> \<le> \<bar>100\<bar> / 36028797018963968 + eta
   \<and> \<bar>115 - 115/100 * 100\<bar> \<le> \<bar>100\<bar> / 4503599627370496 + 3 * eta"
proof -
  note i = premium_surcharge_by_tier[of "Fin 100" EXCLUSIVE_FACILITIES]
  from i have e: "calculate_premium_surcharge (Fin 100) EXCLUSIVE_FACILITIES = (Fin 115, Fin 15)"
    by blast
  from i have "\<forall>x y d. Fin 100 = Fin x \<and> EXCLUSIVE_FACILITIES \<noteq> NONE
         \<and> calculate_premium_surcharge (Fin 100) EXCLUSIVE_FACILITIES = (Fin y, Fin d)
         \<longrightarrow> \<bar>d - 15/100 * x\<bar> \<le> \<bar>x\<bar> / 36028797018963968 + eta
             \<and> \<bar>y - 115/100 * x\<bar> \<le> \<bar>x\<bar> / 4503599627370496 + 3 * eta" by blast
  with e have b: "\<bar>15 - 15/100 * 100\<bar> \<le> \<bar>100\<bar> / 36028797018963968 + eta
             \<and> \<bar>115 - 115/100 * 100\<bar> \<le> \<bar>100\<bar> / 4503599627370496 + 3 * eta"
    by blast
  have "calculate_premium_surcharge (Fin (5999 / 100)) EXCLUSIVE_FACILITIES
     = (fadd (Fin (5999 / 100)) (fmul (Fin (5999 / 100)) (rnd (15 / 100))),
        fmul (Fin (5999 / 100)) (rnd (15 / 100)))"
    using premium_surcharge_by_tier[of "Fin (5999 / 100)"] by blast
  with e b show ?thesis by blast
qed

text \<open>
  C2.  The special-offer discount is a step function of the cost with strict thresholds:
  0 up to and including 200, 20 above 200 up to and including 400, 50 above 400, and the
  discounted cost is the cost minus that discount (a float subtraction).  So 200.00 gets
  no discount and 400.00 gets 20, and the discount is always one of 0, 20 and 50, never a
  sum of tiers.  This holds for every finite cost, negative ones included, and for an
  infinite one.
\<close>

theorem special_offer_step_function:
  "calculate_special_offer_discount (Fin x)
     = (fsub (Fin x) (Fin (if x \<le> 200 then 0 else if x \<le> 400 then 20 else 50)),
        Fin (if x \<le> 200 then 0 else if x \<le> 400 then 20 else 50))
   \<and> calculate_special_offer_discount (Fin 200) = (Fin 200, Fin 0)
   \<and> calculate_special_offer_discount (Fin 400) = (Fin 380, Fin 20)
   \<and> calculate_special_offer_discount PInf = (PInf, Fin 50)
   \<and> snd (calculate_special_offer_discount c) \<in> {Fin 0, Fin 20, Fin 50}"
proof -
  have v200: "rnd 200 = Fin 200" using rnd_repr_pos[of 7036874417766400 "- 45"] by simp
  have v380: "rnd 380 = Fin 380" using rnd_repr_pos[of 6685030696878080 "- 44"] by simp
  show ?thesis
    by (simp add: special_offer_by_value special_offer_unfold fsub_def v200 v380)
qed

text \<open>
  C3.  Below two members \<open>calculate_group_discount\<close> returns the subtotal unchanged with
  discount 0.  From two members on it returns the discount \<open>s * 0.10\<close> and the discounted
  cost \<open>s - s * 0.10\<close>, both computed in binary64.  The discounted cost is \<open>s * 0.90\<close> up
  to rounding only: for finite values it differs from nine tenths of \<open>s\<close> by at most
  \<open>\<bar>s\<bar> / 2^52 + 3 * 2^-1075\<close>.
\<close>

theorem group_discount_by_members:
  "calculate_group_discount s n
     = (if n < 2 then (s, Fin 0)
        else (fsub s (fmul s (rnd (10 / 100))), fmul s (rnd (10 / 100))))
   \<and> (\<forall>r y d. s = Fin r \<and> 2 \<le> n \<and> calculate_group_discount s n = (Fin y, Fin d)
         \<longrightarrow> \<bar>y - 9/10 * r\<bar> \<le> \<bar>r\<bar> / 4503599627370496 + 3 * eta)"
proof -
  have "calculate_group_discount s n
     = (if n < 2 then (s, Fin 0)
        else (fsub s (fmul s (rnd (10 / 100))), fmul s (rnd (10 / 100))))"
    by (simp add: calculate_group_discount_def GROUP_DISCOUNT_THRESHOLD_def
        GROUP_DISCOUNT_PERCENTAGE_def Let_def)
  moreover have "\<forall>r y d. s = Fin r \<and> 2 \<le> n \<and> calculate_group_discount s n = (Fin y, Fin d)
         \<longrightarrow> \<bar>y - 9/10 * r\<bar> \<le> \<bar>r\<bar> / 4503599627370496 + 3 * eta"
    using group_discount_bound by blast
  ultimately show ?thesis by (rule conjI)
qed

lemma group_discount_13:
  "calculate_group_discount (Fin 13) 2
     = (Fin (3293257227514675 / 281474976710656), Fin (5854679515581645 / 4503599627370496))"
  unfolding calculate_group_discount_def GROUP_DISCOUNT_THRESHOLD_def
    GROUP_DISCOUNT_PERCENTAGE_def by code_simp

theorem group_discount_by_members_witness:
  "calculate_group_discount (Fin 13) 2
     = (Fin (3293257227514675 / 281474976710656), Fin (5854679515581645 / 4503599627370496))
   \<and> \<bar>3293257227514675 / 281474976710656 - 9/10 * 13\<bar>
       \<le> \<bar>13\<bar> / 4503599627370496 + 3 * eta"
  using group_discount_by_members[of "Fin 13" 2] group_discount_13 eta_nonneg by simp

text \<open>
  The claim as the specification words it fails at \<open>s = 13.0\<close> with two members: the
  code returns \<open>13.0 - 13.0 * 0.10 = 11.7\<close>, whereas \<open>13.0 * 0.90\<close> is the next float,
  \<open>11.700000000000001\<close>, and the exact product 117/10 is not a float at all.
\<close>

theorem group_discount_counterexample:
  "fst (calculate_group_discount (Fin 13) 2) = Fin (3293257227514675 / 281474976710656)
   \<and> fmul (Fin 13) (rnd (90 / 100)) = Fin (6586514455029351 / 562949953421312)
   \<and> fst (calculate_group_discount (Fin 13) 2) \<noteq> fmul (Fin 13) (rnd (90 / 100))
   \<and> fst (calculate_group_discount (Fin 13) 2) \<noteq> Fin (13 * (90 / 100))"
proof -
  have "fmul (Fin 13) (rnd (90 / 100)) = Fin (6586514455029351 / 562949953421312)"
    by code_simp
  then show ?thesis by (simp add: group_discount_13)
qed

section \<open>Properties of validation\<close>

lemma validate_features_loop_ok:
  "validate_features_loop self fs = (True, None) \<longleftrightarrow> (\<forall>x\<in>set fs. feature_ok self x)"
  by (induction fs) (auto simp add: feature_ok_def split: option.splits)

lemma validate_features_loop_first:
  assumes "\<forall>y\<in>set pre. feature_ok self y" and "\<not> feature_ok self x"
  shows "validate_features_loop self (pre @ x # post) =
     (False, Some (''Additional feature '' @ quoted x @
        (if additional_features self x = None then '' does not exist.''
         else '' is currently unavailable.'')))"
  using assms
  by (induction pre) (auto simp add: feature_ok_def split: option.splits)

lemma validate_features_loop_message:
  "validate_features_loop self fs \<noteq> (False, Some ''Features must be provided as a list.'')"
  by (induction fs) (simp_all split: option.splits)

text \<open>
  C6.  \<open>validate_features\<close> fails with the message "Features must be provided as a list."
  exactly when its argument is not a list: a tuple or a string of names is rejected as
  well, the empty tuple included.  Given a list, it stops at the first name that is not an
  enabled feature of the catalog, with "does not exist" for an unknown name and "is
  currently unavailable" for a known but disabled one; it succeeds when there is no such
  name, so the empty list always validates.
\<close>

theorem validate_features_kinds:
  "((\<forall>names. v \<noteq> PyList names)
      \<longrightarrow> validate_features self v = (False, Some ''Features must be provided as a list.''))
   \<and> validate_features self (PyList names)
         \<noteq> (False, Some ''Features must be provided as a list.'')
   \<and> validate_features self (PyList []) = (True, None)
   \<and> (validate_features self (PyList names) = (True, None)
         \<longleftrightarrow> (\<forall>x\<in>set names. feature_ok self x))
   \<and> ((\<forall>y\<in>set pre. feature_ok self y) \<and> additional_features self x = None
      \<longrightarrow> validate_features self (PyList (pre @ x # post))
           = (False, Some (''Additional feature '' @ quoted x @ '' does not exist.'')))
   \<and> ((\<forall>y\<in>set pre. feature_ok self y) \<and> additional_features self x = Some f
         \<and> \<not> f_available f
      \<longrightarrow> validate_features self (PyList (pre @ x # post))
           = (False, Some (''Additional feature '' @ quoted x
                @ '' is currently unavailable.'')))"
proof -
  have 1: "(\<forall>names. v \<noteq> PyList names)
      \<longrightarrow> validate_features self v = (False, Some ''Features must be provided as a list.'')"
    by (cases v) simp_all
  have 2: "validate_features self (PyList names)
         \<noteq> (False, Some ''Features must be provided as a list.'')"
    by (simp add: validate_features_loop_message)
  have 3: "validate_features self (PyList []) = (True, None)" by simp
  have 4: "validate_features self (PyList names) = (True, None)
         \<longleftrightarrow> (\<forall>x\<in>set names. feature_ok self x)"
    by (simp add: validate_features_loop_ok)
  have 5: "(\<forall>y\<in>set pre. feature_ok self y) \<and> additional_features self x = None
      \<longrightarrow> validate_features self (PyList (pre @ x # post))
           = (False, Some (''Additional feature '' @ quoted x @ '' does not exist.''))"
    using validate_features_loop_first[of pre self x post] by (simp add: feature_ok_def)
  have 6: "(\<forall>y\<in>set pre. feature_ok self y) \<and> additional_features self x = Some f
         \<and> \<not> f_available f
      \<longrightarrow> validate_features self (PyList (pre @ x # post))
           = (False, Some (''Additional feature '' @ quoted x
                @ '' is currently unavailable.''))"
    using validate_features_loop_first[of pre self x post] by (simp add: feature_ok_def)
  from 1 2 3 4 5 6 show ?thesis by blast
qed

lemma seed_features_ok:
  "feature_ok init_manager ''Personal Training''"
  "feature_ok init_manager ''Group Classes''"
  "feature_ok init_manager ''Nutritional Consulting''"
  "additional_features init_manager ''Yoga'' = None"
  by (simp_all add: feature_ok_def init_manager_def ADDITIONAL_FEATURES_def)

lemma disabled_feature:
  "feature_ok (set_feature_available init_manager ''Group Classes'' False) ''Personal Training''"
  "\<exists>f. additional_features (set_feature_available init_manager ''Group Classes'' False)
          ''Group Classes'' = Some f \<and> \<not> f_available f"
  by (simp_all add: feature_ok_def set_feature_available_def init_manager_def
      ADDITIONAL_FEATURES_def)

theorem validate_features_kinds_witness:
  "validate_features init_manager (PyStr ''PersonalTraining'')
     = (False, Some ''Features must be provided as a list.'')
   \<and> validate_features init_manager (PyList [''Personal Training'', ''Group Classes''])
     = (True, None)
   \<and> validate_features init_manager (PyList [''Personal Training'', ''Yoga'', ''Group Classes''])
     = (False, Some (''Additional feature '' @ quoted ''Yoga'' @ '' does not exist.''))
   \<and> validate_features (set_feature_available init_manager ''Group Classes'' False)
        (PyList [''Personal Training'', ''Group Classes''])
     = (False, Some (''Additional feature '' @ quoted ''Group Classes''
          @ '' is currently unavailable.''))"
proof -
  obtain f where f: "additional_features (set_feature_available init_manager ''Group Classes'' False)
          ''Group Classes'' = Some f" "\<not> f_available f"
    using disabled_feature(2) by blast
  show ?thesis
    using validate_features_kinds[of "PyStr ''PersonalTraining''" init_manager
            "[''Personal Training'', ''Group Classes'']" "[''Personal Training'']" "''Yoga''"
            "[''Group Classes'']"]
          validate_features_kinds[of PyNone
            "set_feature_available init_manager ''Group Classes'' False"
            "[]" "[''Personal Training'']" "''Group Classes''" "[]" f]
          seed_features_ok disabled_feature(1) f
    by simp
qed

text \<open>
  The claim as worded fails on a tuple: the type check is \<open>isinstance(feature_names,
  list)\<close>, so the empty tuple and a tuple of valid names are both turned down.
\<close>

theorem validate_features_tuple_counterexample:
  "validate_features init_manager (PyTuple [])
     = (False, Some ''Features must be provided as a list.'')
   \<and> validate_features init_manager (PyTuple [''Personal Training''])
     = (False, Some ''Features must be provided as a list.'')"
  by simp

lemma validate_features_loop_not_members_message:
  "validate_features_loop self fs \<noteq> (False, Some ''Number of members must be an integer.'')"
  "validate_features_loop self fs \<noteq> (False, Some ''Number of members must be at least 1.'')"
  "validate_features_loop self fs \<noteq> (False, Some ''Number of members cannot exceed 10.'')"
  by (induction fs) (simp_all split: option.splits)

lemma validate_features_not_members_message:
  "validate_features self u \<noteq> (False, Some ''Number of members must be an integer.'')"
  "validate_features self u \<noteq> (False, Some ''Number of members must be at least 1.'')"
  "validate_features self u \<noteq> (False, Some ''Number of members cannot exceed 10.'')"
  by (cases u; simp add: validate_features_loop_not_members_message)+

lemma validate_membership_plan_not_members_message:
  "validate_membership_plan self p \<noteq> (False, Some ''Number of members must be an integer.'')"
  "validate_membership_plan self p \<noteq> (False, Some ''Number of members must be at least 1.'')"
  "validate_membership_plan self p \<noteq> (False, Some ''Number of members cannot exceed 10.'')"
  by (simp_all add: validate_membership_plan_def split: option.splits)

lemma validate_num_members_failures:
  "fst (validate_num_members v) = False \<Longrightarrow>
     validate_num_members v \<in> {(False, Some ''Number of members must be an integer.''),
       (False, Some ''Number of members must be at least 1.''),
       (False, Some ''Number of members cannot exceed 10.'')}"
  by (simp add: validate_num_members_def split: option.splits if_splits)

text \<open>
  C7.  \<open>validate_num_members\<close> answers "must be an integer" when its argument is not an
  \<open>int\<close>, "must be at least 1" for an integer below 1, "cannot exceed 10" for one above
  10, and succeeds otherwise.  The test is \<open>isinstance(num_members, int)\<close>, and in Python a
  \<open>bool\<close> is an \<open>int\<close>: \<open>True\<close> counts as 1 and is accepted, \<open>False\<close> counts as 0 and is
  below the range; floats, strings, \<open>None\<close>, lists and tuples are not integers.  The three
  failures return different results, and a failure of \<open>validate_num_members\<close> is never the
  result of \<open>validate_membership_plan\<close> or of \<open>validate_features\<close>, whatever the catalogs
  and the arguments; in particular it differs from their "does not exist" failures.
\<close>

theorem validate_num_members_kinds:
  "(as_int v = None
      \<longrightarrow> validate_num_members v = (False, Some ''Number of members must be an integer.''))
   \<and> (as_int v = Some n \<and> n < 1
      \<longrightarrow> validate_num_members v = (False, Some ''Number of members must be at least 1.''))
   \<and> (as_int v = Some n \<and> 10 < n
      \<longrightarrow> validate_num_members v = (False, Some ''Number of members cannot exceed 10.''))
   \<and> (as_int v = Some n \<and> 1 \<le> n \<and> n \<le> 10 \<longrightarrow> validate_num_members v = (True, None))
   \<and> as_int (PyFloat x) = None \<and> as_int (PyStr s) = None \<and> as_int PyNone = None
   \<and> as_int (PyList l) = None \<and> as_int (PyTuple l) = None \<and> as_int (PyInt i) = Some i
   \<and> as_int (PyBool True) = Some 1 \<and> as_int (PyBool False) = Some 0
   \<and> validate_num_members (PyBool True) = (True, None)
   \<and> validate_num_members (PyBool False)
       = (False, Some ''Number of members must be at least 1.'')
   \<and> (as_int v1 = None \<and> as_int v2 = Some n2 \<and> n2 < 1 \<and> as_int v3 = Some n3 \<and> 10 < n3
      \<longrightarrow> distinct [validate_num_members v1, validate_num_members v2,
            validate_num_members v3])
   \<and> (membership_plans self plan_name = None
      \<longrightarrow> validate_membership_plan self plan_name
           = (False, Some (''Membership plan '' @ quoted plan_name @ '' does not exist.'')))
   \<and> (additional_features self feature_name = None
      \<longrightarrow> validate_features self (PyList [feature_name])
           = (False, Some (''Additional feature '' @ quoted feature_name
                @ '' does not exist.'')))
   \<and> (fst (validate_num_members v) = False
      \<longrightarrow> validate_membership_plan self plan_name \<noteq> validate_num_members v
          \<and> validate_features self u \<noteq> validate_num_members v)"
proof -
  have a: "(as_int v = None
      \<longrightarrow> validate_num_members v = (False, Some ''Number of members must be an integer.''))
   \<and> (as_int v = Some n \<and> n < 1
      \<longrightarrow> validate_num_members v = (False, Some ''Number of members must be at least 1.''))
   \<and> (as_int v = Some n \<and> 10 < n
      \<longrightarrow> validate_num_members v = (False, Some ''Number of members cannot exceed 10.''))
   \<and> (as_int v = Some n \<and> 1 \<le> n \<and> n \<le> 10 \<longrightarrow> validate_num_members v = (True, None))
   \<and> as_int (PyFloat x) = None \<and> as_int (PyStr s) = None \<and> as_int PyNone = None
   \<and> as_int (PyList l) = None \<and> as_int (PyTuple l) = None \<and> as_int (PyInt i) = Some i
   \<and> as_int (PyBool True) = Some 1 \<and> as_int (PyBool False) = Some 0
   \<and> validate_num_members (PyBool True) = (True, None)
   \<and> validate_num_members (PyBool False)
       = (False, Some ''Number of members must be at least 1.'')"
    by (simp add: validate_num_members_def)
  have b: "as_int v1 = None \<and> as_int v2 = Some n2 \<and> n2 < 1 \<and> as_int v3 = Some n3 \<and> 10 < n3
      \<longrightarrow> distinct [validate_num_members v1, validate_num_members v2,
            validate_num_members v3]"
    by (simp add: validate_num_members_def)
  have c: "membership_plans self plan_name = None
      \<longrightarrow> validate_membership_plan self plan_name
           = (False, Some (''Membership plan '' @ quoted plan_name @ '' does not exist.''))"
    by (simp add: validate_membership_plan_def)
  have d: "additional_features self feature_name = None
      \<longrightarrow> validate_features self (PyList [feature_name])
           = (False, Some (''Additional feature '' @ quoted feature_name
                @ '' does not exist.''))"
    by simp
  have e: "fst (validate_num_members v) = False
      \<longrightarrow> validate_membership_plan self plan_name \<noteq> validate_num_members v
          \<and> validate_features self u \<noteq> validate_num_members v"
    using validate_num_members_failures[of v]
      validate_membership_plan_not_members_message[of self plan_name]
      validate_features_not_members_message[of self u]
    by auto
  from a b c d e show ?thesis by blast
qed

lemma unknown_plan: "membership_plans init_manager ''Gold'' = None"
  by (simp add: init_manager_def MEMBERSHIP_PLANS_def)

theorem validate_num_members_kinds_witness:
  "validate_num_members (PyFloat (rnd (55 / 10)))
     = (False, Some ''Number of members must be an integer.'')
   \<and> validate_num_members (PyInt 0) = (False, Some ''Number of members must be at least 1.'')
   \<and> validate_num_members (PyInt 15) = (False, Some ''Number of members cannot exceed 10.'')
   \<and> validate_num_members (PyInt 10) = (True, None)
   \<and> distinct [validate_num_members (PyFloat (rnd (55 / 10))), validate_num_members (PyInt 0),
        validate_num_members (PyInt 15)]
   \<and> validate_membership_plan init_manager ''Gold''
       = (False, Some (''Membership plan '' @ quoted ''Gold'' @ '' does not exist.''))
   \<and> validate_features init_manager (PyList [''Yoga''])
       = (False, Some (''Additional feature '' @ quoted ''Yoga'' @ '' does not exist.''))
   \<and> validate_membership_plan init_manager ''Gold'' \<noteq> validate_num_members (PyInt 15)
   \<and> validate_features init_manager (PyList [''Yoga'']) \<noteq> validate_num_members (PyInt 15)"
  using validate_num_members_kinds[of "PyFloat (rnd (55 / 10))" 0 _ _ _ _ "PyFloat (rnd (55 / 10))"
          "PyInt 0" 0 "PyInt 15" 15]
        validate_num_members_kinds[of "PyInt 0" 0]
        validate_num_members_kinds[of "PyInt 15" 15 _ _ _ _ PyNone PyNone 0 PyNone 0
          init_manager "''Gold''" "''Yoga''" "PyList [''Yoga'']"]
        validate_num_members_kinds[of "PyInt 10" 10]
        unknown_plan seed_features_ok(4)
  by simp

section \<open>Validation before calculation\<close>

lemma features_cost_loop_ok:
  "\<forall>x\<in>set fs. feature_ok self x \<Longrightarrow> \<exists>c. features_cost_loop self acc fs = Inr c"
  by (induction fs arbitrary: acc) (auto simp add: feature_ok_def split: option.splits)

text \<open>
  C9.  When \<open>validate_membership_plan\<close> accepts the plan name and \<open>validate_features\<close>
  accepts the list of feature names, the catalog lookups of \<open>calculate_base_cost\<close> and
  \<open>calculate_features_cost\<close> find every name, and \<open>calculate_total_cost\<close> returns a total
  and a breakdown for every member count and premium tier: no \<open>KeyError\<close> is raised.
\<close>

theorem validated_selection_has_total:
  assumes "validate_membership_plan self plan_name = (True, None)"
    and "validate_features self (PyList feature_names) = (True, None)"
  shows "(\<exists>c. calculate_base_cost self plan_name = Inr c)
       \<and> (\<exists>c. calculate_features_cost self feature_names = Inr c)
       \<and> (\<exists>tot b. calculate_total_cost self plan_name feature_names num_members premium_level
              = Inr (tot, b))"
proof -
  from assms(1) obtain c where c: "calculate_base_cost self plan_name = Inr c"
    by (auto simp add: validate_membership_plan_def calculate_base_cost_def
        split: option.splits if_splits)
  from assms(2) have "\<forall>x\<in>set feature_names. feature_ok self x"
    by (simp add: validate_features_loop_ok)
  then obtain d where d: "calculate_features_cost self feature_names = Inr d"
    unfolding calculate_features_cost_def using features_cost_loop_ok by blast
  have "\<exists>tot b. calculate_total_cost self plan_name feature_names num_members premium_level
              = Inr (tot, b)"
    by (simp add: calculate_total_cost_def c d Let_def split: prod.splits)
  with c d show ?thesis by blast
qed

theorem validated_selection_has_total_witness:
  "validate_membership_plan init_manager ''Family'' = (True, None)
   \<and> validate_features init_manager (PyList [''Personal Training'', ''Group Classes''])
       = (True, None)
   \<and> (\<exists>tot b. calculate_total_cost init_manager ''Family''
          [''Personal Training'', ''Group Classes''] 3 EXCLUSIVE_FACILITIES = Inr (tot, b))"
proof -
  have 1: "validate_membership_plan init_manager ''Family'' = (True, None)"
    by (simp add: validate_membership_plan_def init_manager_def MEMBERSHIP_PLANS_def)
  have 2: "validate_features init_manager (PyList [''Personal Training'', ''Group Classes''])
       = (True, None)"
    by (simp only: validate_features.simps validate_features_loop_ok)
       (simp add: seed_features_ok)
  from validated_selection_has_total[OF 1 2] 1 2 show ?thesis by blast
qed

section \<open>Method calls leave the catalogs alone\<close>

lemma run_self_reads [simp]:
  "run_state self_membership_plans self = (membership_plans self, self)"
  "run_state self_additional_features self = (additional_features self, self)"
  "run_state self_membership_plans_values self
     = (List.map_filter (membership_plans self) (plan_order self), self)"
  "run_state self_additional_features_values self
     = (List.map_filter (additional_features self) (feature_order self), self)"
  by (simp_all add: self_membership_plans_def self_additional_features_def
      self_membership_plans_values_def self_additional_features_values_def)

lemma run_get_available:
  "run_state get_available_membership_plans_m self
     = (filter p_available (List.map_filter (membership_plans self) (plan_order self)), self)"
  "run_state get_available_features_m self
     = (filter f_available (List.map_filter (additional_features self) (feature_order self)),
        self)"
  by (simp_all add: get_available_membership_plans_m_def get_available_features_m_def)

lemma run_validate_membership_plan:
  "run_state (validate_membership_plan_m plan_name) self
     = (validate_membership_plan self plan_name, self)"
  by (simp add: validate_membership_plan_m_def validate_membership_plan_def
      split: option.splits)

lemma run_validate_features_loop:
  "run_state (validate_features_loop_m fs) self = (validate_features_loop self fs, self)"
  by (induction fs) (simp_all split: option.splits)

lemma run_validate_features:
  "run_state (validate_features_m v) self = (validate_features self v, self)"
  by (cases v) (simp_all add: run_validate_features_loop)

lemma run_validate_num_members:
  "run_state (validate_num_members_m v) self = (validate_num_members v, self)"
  by (simp add: validate_num_members_m_def validate_num_members_def split: option.splits)

lemma run_calculate_base_cost:
  "run_state (calculate_base_cost_m plan_name) self = (calculate_base_cost self plan_name, self)"
  by (simp add: calculate_base_cost_m_def calculate_base_cost_def split: option.splits)

lemma run_features_cost_loop:
  "run_state (features_cost_loop_m acc fs) self = (features_cost_loop self acc fs, self)"
  by (induction fs arbitrary: acc) (simp_all split: option.splits)

lemma run_calculate_features_cost:
  "run_state (calculate_features_cost_m fs) self = (calculate_features_cost self fs, self)"
  by (simp add: calculate_features_cost_m_def calculate_features_cost_def
      run_features_cost_loop)

lemma run_stage_functions:
  "run_state (calculate_group_discount_m s n) self = (calculate_group_discount s n, self)"
  "run_state (calculate_special_offer_discount_m x) self
     = (calculate_special_offer_discount x, self)"
  "run_state (calculate_premium_surcharge_m x t) self = (calculate_premium_surcharge x t, self)"
  by (simp_all add: calculate_group_discount_m_def calculate_group_discount_def
      calculate_special_offer_discount_m_def calculate_special_offer_discount_def
      calculate_premium_surcharge_m_def calculate_premium_surcharge_def Let_def)

lemma run_calculate_total_cost:
  "run_state (calculate_total_cost_m plan_name fs n t) self
     = (calculate_total_cost self plan_name fs n t, self)"
  by (simp add: calculate_total_cost_m_def calculate_total_cost_def run_calculate_base_cost
      run_calculate_features_cost run_stage_functions Let_def
      split: sum.splits prod.splits)

lemma run_feature_lines:
  "run_state (feature_lines_m fs) self = (feature_lines self fs, self)"
  by (induction fs) (simp_all split: option.splits sum.splits)

lemma run_get_summary:
  "run_state (get_summary_m plan_name fs n t) self = (get_summary self plan_name fs n t, self)"
  by (simp add: get_summary_m_def get_summary_def summary_lines_def run_calculate_total_cost
      run_feature_lines split: sum.splits prod.splits)

lemma call_state: "snd (run_state (call c) self) = self"
  by (cases c)
     (simp_all add: run_get_available run_validate_membership_plan run_validate_features
        run_validate_num_members run_calculate_base_cost run_calculate_features_cost
        run_stage_functions run_calculate_total_cost run_get_summary split_beta)

lemma assignment_changes_catalog:
  "snd (run_state (assign_feature_available ''Group Classes'' False) init_manager)
     \<noteq> init_manager"
proof
  assume "snd (run_state (assign_feature_available ''Group Classes'' False) init_manager)
     = init_manager"
  then have "set_feature_available init_manager ''Group Classes'' False = init_manager"
    by (simp add: assign_feature_available_def State_Monad.update_def)
  then have "feature_ok (set_feature_available init_manager ''Group Classes'' False)
       ''Group Classes''"
    by (simp add: seed_features_ok)
  then show False using disabled_feature(2) by (auto simp add: feature_ok_def)
qed

text \<open>
  C10.  A call of any public method other than \<open>__init__\<close> (the two listings of available
  plans and features, the three validations, the cost calculators,
  \<open>calculate_total_cost\<close>, \<open>get_summary\<close>) ends in the state it started in: both
  catalogs, with every availability flag and cost, are unchanged.  Hence the same call
  made twice in a row returns the same result twice.  The results are those of the
  functions of the sections above, applied to the state of the object.  An assignment to
  an availability flag, which no method performs, does change the state
  (\<open>assignment_changes_catalog\<close>).
\<close>

theorem call_leaves_catalogs:
  "snd (run_state (call c) self) = self
   \<and> membership_plans (snd (run_state (call c) self)) = membership_plans self
   \<and> additional_features (snd (run_state (call c) self)) = additional_features self
   \<and> run_state (do { r1 \<leftarrow> call c; r2 \<leftarrow> call c; State_Monad.return (r1 = r2) }) self
       = (True, self)
   \<and> run_state (call (ValidateMembershipPlan plan_name)) self
       = (Validation (validate_membership_plan self plan_name), self)
   \<and> run_state (call (ValidateFeatures v)) self = (Validation (validate_features self v), self)
   \<and> run_state (call (ValidateNumMembers v)) self = (Validation (validate_num_members v), self)
   \<and> run_state (call (CalculateBaseCost plan_name)) self
       = (Cost (calculate_base_cost self plan_name), self)
   \<and> run_state (call (CalculateFeaturesCost fs)) self
       = (Cost (calculate_features_cost self fs), self)
   \<and> run_state (call (CalculateGroupDiscount x n)) self
       = (CostPair (calculate_group_discount x n), self)
   \<and> run_state (call (CalculateSpecialOfferDiscount x)) self
       = (CostPair (calculate_special_offer_discount x), self)
   \<and> run_state (call (CalculatePremiumSurcharge x t)) self
       = (CostPair (calculate_premium_surcharge x t), self)
   \<and> run_state (call (CalculateTotalCost plan_name fs n t)) self
       = (TotalCost (calculate_total_cost self plan_name fs n t), self)
   \<and> run_state (call (GetSummary plan_name fs n t)) self
       = (Summary (get_summary self plan_name fs n t), self)
   \<and> run_state (call GetAvailableMembershipPlans) self
       = (Plans (filter p_available
            (List.map_filter (membership_plans self) (plan_order self))), self)
   \<and> run_state (call GetAvailableFeatures) self
       = (Features (filter f_available
            (List.map_filter (additional_features self) (feature_order self))), self)
   \<and> run_state (call (ValidateMembershipPlan ''Gold'')) init_manager
       = (Validation (False,
            Some (''Membership plan '' @ quoted ''Gold'' @ '' does not exist.'')),
          init_manager)
   \<and> map (map f_name) (case fst (run_state (call GetAvailableFeatures)
          (set_feature_available init_manager ''Group Classes'' False)) of
          Features fs \<Rightarrow> [fs] | _ \<Rightarrow> [])
       = [[''Personal Training'', ''Nutritional Consulting'']]"
proof -
  have twice: "run_state (do { r1 \<leftarrow> call c; r2 \<leftarrow> call c; State_Monad.return (r1 = r2) }) self
       = (True, self)"
  proof -
    obtain r where r: "run_state (call c) self = (r, self)"
      using call_state[of c self] by (cases "run_state (call c) self") simp
    then show ?thesis by simp
  qed
  have inst1: "run_state (call (ValidateMembershipPlan ''Gold'')) init_manager
       = (Validation (False,
            Some (''Membership plan '' @ quoted ''Gold'' @ '' does not exist.'')),
          init_manager)"
    by (simp add: run_validate_membership_plan validate_membership_plan_def unknown_plan)
  have inst2: "map (map f_name) (case fst (run_state (call GetAvailableFeatures)
          (set_feature_available init_manager ''Group Classes'' False)) of
          Features fs \<Rightarrow> [fs] | _ \<Rightarrow> [])
       = [[''Personal Training'', ''Nutritional Consulting'']]"
    by (simp add: run_get_available set_feature_available_def init_manager_def
        ADDITIONAL_FEATURES_def)
  show ?thesis
    using twice inst1 inst2
    by (simp add: call_state run_get_available run_validate_membership_plan
        run_validate_features run_validate_num_members run_calculate_base_cost
        run_calculate_features_cost run_stage_functions run_calculate_total_cost
        run_get_summary del: call.simps)
       (simp add: run_get_available run_validate_membership_plan
        run_validate_features run_validate_num_members run_calculate_base_cost
        run_calculate_features_cost run_stage_functions run_calculate_total_cost
        run_get_summary)
qed

section \<open>Properties of the composition\<close>

lemma features_cost_loop_sum:
  "features_cost_loop self acc fs = Inr v \<Longrightarrow> v = foldl fadd acc (map (cost_of self) fs)"
  by (induction fs arbitrary: acc) (auto simp add: cost_of_def split: option.splits)

lemma group_discount_consistent:
  assumes "is_float s" and "calculate_group_discount s n = (ag, gd)"
  shows "ag = fsub s gd"
  using assms
  by (auto simp add: calculate_group_discount_def Let_def fsub_zero split: if_splits)

lemma premium_surcharge_consistent:
  assumes "is_float x" and "calculate_premium_surcharge x t = (tot, su)"
  shows "tot = fadd x su"
  using assms
  by (auto simp add: calculate_premium_surcharge_def Let_def fadd_zero split: if_splits)

lemma special_offer_consistent:
  assumes "calculate_special_offer_discount x = (y, sd)"
  shows "y = fsub x sd" and "is_float y"
  using assms by (auto simp add: calculate_special_offer_discount_def Let_def fsub_is_float)

text \<open>
  C1.  \<open>calculate_total_cost\<close> composes its stages in a fixed order.  The features cost
  is the float sum, from 0.0 and in list order, of the cost of every listed name, a
  repeated name being added each time; the subtotal is base cost plus features cost; the
  group discount is computed on the subtotal, the special-offer discount on the amount
  after the group discount, and the premium surcharge last, on the amount after the
  special-offer discount.  The breakdown records every intermediate value consistently
  and its total is the returned total.  Every stage is a binary64 operation, so the
  returned total agrees with the closed form
  \<open>((subtotal * groupFactor) - specialDiscount) * (1 + surchargeFactor)\<close> up to rounding:
  for finite values the difference is at most \<open>(\<bar>subtotal\<bar> + specialDiscount) / 2^50 +
  9 * 2^-1075\<close>.
\<close>

theorem total_cost_composition:
  assumes "calculate_total_cost self plan_name feature_names n t = Inr (tot, b)"
  shows "calculate_base_cost self plan_name = Inr (bd_base_cost b)
       \<and> bd_features_cost b = foldl fadd (Fin 0) (map (cost_of self) feature_names)
       \<and> bd_subtotal b = fadd (bd_base_cost b) (bd_features_cost b)
       \<and> calculate_group_discount (bd_subtotal b) n
            = (bd_after_group_discount b, bd_group_discount b)
       \<and> calculate_special_offer_discount (bd_after_group_discount b)
            = (bd_after_special_discount b, bd_special_offer_discount b)
       \<and> calculate_premium_surcharge (bd_after_special_discount b) t
            = (tot, bd_premium_surcharge b)
       \<and> bd_after_group_discount b = fsub (bd_subtotal b) (bd_group_discount b)
       \<and> bd_after_special_discount b
            = fsub (bd_after_group_discount b) (bd_special_offer_discount b)
       \<and> bd_total_cost b = fadd (bd_after_special_discount b) (bd_premium_surcharge b)
       \<and> bd_total_cost b = tot
       \<and> (\<forall>s x. bd_subtotal b = Fin s \<and> tot = Fin x
            \<longrightarrow> (\<exists>sd. bd_special_offer_discount b = Fin sd \<and> sd \<in> {0, 20, 50}
                  \<and> \<bar>x - spec_closed_form s n sd t\<bar>
                       \<le> (\<bar>s\<bar> + sd) / 1125899906842624 + 9 * eta))"
proof -
  note st = total_cost_stages[OF assms]
  from st have base: "calculate_base_cost self plan_name = Inr (bd_base_cost b)" by blast
  from st have "calculate_features_cost self feature_names = Inr (bd_features_cost b)" by blast
  then have feats: "bd_features_cost b = foldl fadd (Fin 0) (map (cost_of self) feature_names)"
    unfolding calculate_features_cost_def by (rule features_cost_loop_sum)
  from st have sub: "bd_subtotal b = fadd (bd_base_cost b) (bd_features_cost b)" by blast
  from st have g: "calculate_group_discount (bd_subtotal b) n
            = (bd_after_group_discount b, bd_group_discount b)" by blast
  from st have sp: "calculate_special_offer_discount (bd_after_group_discount b)
            = (bd_after_special_discount b, bd_special_offer_discount b)" by blast
  from st have tt: "bd_total_cost b = tot" by blast
  from st have pr0: "calculate_premium_surcharge (bd_after_special_discount b) t
            = (bd_total_cost b, bd_premium_surcharge b)" by blast
  then have pr: "calculate_premium_surcharge (bd_after_special_discount b) t
            = (tot, bd_premium_surcharge b)" by (simp only: tt)
  have "is_float (bd_subtotal b)" by (simp only: sub fadd_is_float)
  then have c1: "bd_after_group_discount b = fsub (bd_subtotal b) (bd_group_discount b)"
    using g by (rule group_discount_consistent)
  have c2: "bd_after_special_discount b
            = fsub (bd_after_group_discount b) (bd_special_offer_discount b)"
    and fl: "is_float (bd_after_special_discount b)"
    using special_offer_consistent[OF sp] by blast+
  have c3: "bd_total_cost b = fadd (bd_after_special_discount b) (bd_premium_surcharge b)"
    using fl pr0 by (rule premium_surcharge_consistent)
  have bound: "\<forall>s x. bd_subtotal b = Fin s \<and> tot = Fin x
            \<longrightarrow> (\<exists>sd. bd_special_offer_discount b = Fin sd \<and> sd \<in> {0, 20, 50}
                  \<and> \<bar>x - spec_closed_form s n sd t\<bar>
                       \<le> (\<bar>s\<bar> + sd) / 1125899906842624 + 9 * eta)"
  proof (intro allI impI)
    fix s x
    assume h: "bd_subtotal b = Fin s \<and> tot = Fin x"
    then have r: "calculate_total_cost self plan_name feature_names n t = Inr (Fin x, b)"
      using assms by simp
    from h have s: "bd_subtotal b = Fin s" by blast
    from closed_form_bound[OF r s] obtain sd where
      sd: "bd_special_offer_discount b = Fin sd"
      and bd: "\<bar>x - spec_closed_form s n sd t\<bar> \<le> (\<bar>s\<bar> + sd) / 1125899906842624 + 9 * eta"
      by blast
    have "snd (calculate_special_offer_discount (bd_after_group_discount b))
            \<in> {Fin 0, Fin 20, Fin 50}"
      by (simp add: special_offer_unfold)
    then have "sd \<in> {0, 20, 50}" by (simp add: sp sd)
    with sd bd show "\<exists>sd. bd_special_offer_discount b = Fin sd \<and> sd \<in> {0, 20, 50}
                  \<and> \<bar>x - spec_closed_form s n sd t\<bar>
                       \<le> (\<bar>s\<bar> + sd) / 1125899906842624 + 9 * eta" by blast
  qed
  from base feats sub g sp pr c1 c2 c3 tt bound show ?thesis by blast
qed

lemma family_twice_personal_training:
  "calculate_total_cost init_manager ''Family'' [''Personal Training'', ''Personal Training'']
     2 EXCLUSIVE_FACILITIES
   = Inr (Fin (7282800864137105 / 35184372088832),
      \<lparr>bd_base_cost = Fin (7036170730324623 / 70368744177664),
         bd_features_cost = Fin 100,
         bd_subtotal = Fin (879565321755689 / 4398046511104),
         bd_group_discount = Fin (2814609029618205 / 140737488355328),
         bd_after_group_discount = Fin (6332870316640961 / 35184372088832),
         bd_special_offer_discount = Fin 0,
         bd_after_special_discount = Fin (6332870316640961 / 35184372088832),
         bd_premium_surcharge = Fin (7599444379969153 / 281474976710656),
         bd_total_cost = Fin (7282800864137105 / 35184372088832)\<rparr>)"
  by code_simp

theorem total_cost_composition_witness:
  "calculate_total_cost init_manager ''Family'' [''Personal Training'', ''Personal Training'']
     2 EXCLUSIVE_FACILITIES
   = Inr (Fin (7282800864137105 / 35184372088832),
      \<lparr>bd_base_cost = Fin (7036170730324623 / 70368744177664),
         bd_features_cost = Fin 100,
         bd_subtotal = Fin (879565321755689 / 4398046511104),
         bd_group_discount = Fin (2814609029618205 / 140737488355328),
         bd_after_group_discount = Fin (6332870316640961 / 35184372088832),
         bd_special_offer_discount = Fin 0,
         bd_after_special_discount = Fin (6332870316640961 / 35184372088832),
         bd_premium_surcharge = Fin (7599444379969153 / 281474976710656),
         bd_total_cost = Fin (7282800864137105 / 35184372088832)\<rparr>)
   \<and> foldl fadd (Fin 0)
        (map (cost_of init_manager) [''Personal Training'', ''Personal Training'']) = Fin 100
   \<and> \<bar>7282800864137105 / 35184372088832
        - spec_closed_form (879565321755689 / 4398046511104) 2 0 EXCLUSIVE_FACILITIES\<bar>
       \<le> (\<bar>879565321755689 / 4398046511104\<bar> + 0) / 1125899906842624 + 9 * eta"
proof -
  define b where "b = \<lparr>bd_base_cost = Fin (7036170730324623 / 70368744177664),
         bd_features_cost = Fin 100,
         bd_subtotal = Fin (879565321755689 / 4398046511104),
         bd_group_discount = Fin (2814609029618205 / 140737488355328),
         bd_after_group_discount = Fin (6332870316640961 / 35184372088832),
         bd_special_offer_discount = Fin 0,
         bd_after_special_discount = Fin (6332870316640961 / 35184372088832),
         bd_premium_surcharge = Fin (7599444379969153 / 281474976710656),
         bd_total_cost = Fin (7282800864137105 / 35184372088832)\<rparr>"
  have e: "calculate_total_cost init_manager ''Family''
      [''Personal Training'', ''Personal Training''] 2 EXCLUSIVE_FACILITIES
      = Inr (Fin (7282800864137105 / 35184372088832), b)"
    unfolding b_def by (rule family_twice_personal_training)
  note c = total_cost_composition[OF e]
  have fc: "bd_features_cost b = Fin 100" and sub: "bd_subtotal b = Fin (879565321755689 / 4398046511104)"
    and sp: "bd_special_offer_discount b = Fin 0"
    by (simp_all add: b_def)
  from c have "bd_features_cost b = foldl fadd (Fin 0)
      (map (cost_of init_manager) [''Personal Training'', ''Personal Training''])" by blast
  then have 2: "foldl fadd (Fin 0)
      (map (cost_of init_manager) [''Personal Training'', ''Personal Training'']) = Fin 100"
    by (simp only: fc)
  from c have "\<forall>s x. bd_subtotal b = Fin s \<and> Fin (7282800864137105 / 35184372088832) = Fin x
            \<longrightarrow> (\<exists>sd. bd_special_offer_discount b = Fin sd \<and> sd \<in> {0, 20, 50}
                  \<and> \<bar>x - spec_closed_form s 2 sd EXCLUSIVE_FACILITIES\<bar>
                       \<le> (\<bar>s\<bar> + sd) / 1125899906842624 + 9 * eta)" by blast
  with sub obtain sd where "bd_special_offer_discount b = Fin sd"
    and bd: "\<bar>7282800864137105 / 35184372088832
          - spec_closed_form (879565321755689 / 4398046511104) 2 sd EXCLUSIVE_FACILITIES\<bar>
       \<le> (\<bar>879565321755689 / 4398046511104\<bar> + sd) / 1125899906842624 + 9 * eta"
    by blast
  with sp have "sd = 0" by simp
  with bd have 3: "\<bar>7282800864137105 / 35184372088832
        - spec_closed_form (879565321755689 / 4398046511104) 2 0 EXCLUSIVE_FACILITIES\<bar>
       \<le> (\<bar>879565321755689 / 4398046511104\<bar> + 0) / 1125899906842624 + 9 * eta"
    by (simp only:)
  from family_twice_personal_training 2 3 show ?thesis by (intro conjI)
qed

text \<open>
  The closed form does not hold as an equality.  For the Basic plan, one member and a
  premium tier the code returns \<open>29.99 + 29.99 * 0.15 = 34.4885\<close>, whereas the closed form
  evaluated on floats, \<open>((29.99 * 1.0) - 0) * (1 + 0.15)\<close>, is the float just below,
  \<open>34.488499999999995\<close>, and evaluated exactly on the float 29.99 it is not a float.
\<close>

theorem total_cost_closed_form_counterexample:
  "(case calculate_total_cost init_manager ''Basic'' [] 1 EXCLUSIVE_FACILITIES of
      Inl e \<Rightarrow> False
    | Inr (tot, b) \<Rightarrow>
        tot = Fin (2426912433571365 / 70368744177664)
        \<and> bd_subtotal b = Fin (8441434551552573 / 281474976710656)
        \<and> bd_special_offer_discount b = Fin 0
        \<and> spec_closed_form_float (bd_subtotal b) 1 (bd_special_offer_discount b)
              EXCLUSIVE_FACILITIES
            = Fin (4853824867142729 / 140737488355328)
        \<and> spec_closed_form_float (bd_subtotal b) 1 (bd_special_offer_discount b)
              EXCLUSIVE_FACILITIES \<noteq> tot
        \<and> Fin (spec_closed_form (8441434551552573 / 281474976710656) 1 0
              EXCLUSIVE_FACILITIES) \<noteq> tot)"
  by code_simp

section \<open>The end-to-end scenarios on the seed catalogs\<close>

lemma scenario_1:
  "(case calculate_total_cost init_manager ''Basic'' [] 1 NONE of
      Inl e \<Rightarrow> False
    | Inr (tot, b) \<Rightarrow> tot = rnd (2999 / 100))"
  by code_simp

lemma scenario_2:
  "(case calculate_total_cost init_manager ''Basic'' [''Personal Training''] 1 NONE of
      Inl e \<Rightarrow> False
    | Inr (tot, b) \<Rightarrow> bd_subtotal b = rnd (7999 / 100) \<and> tot = rnd (7999 / 100))"
  by code_simp

lemma scenario_3:
  "(case calculate_total_cost init_manager ''Basic'' [] 2 NONE of
      Inl e \<Rightarrow> False
    | Inr (tot, b) \<Rightarrow> bd_group_discount b = rnd (2999 / 1000)
        \<and> bd_after_group_discount b = rnd (26991 / 1000) \<and> tot = rnd (26991 / 1000))"
  by code_simp

lemma scenario_4:
  "(case calculate_total_cost init_manager ''Family''
           [''Personal Training'', ''Group Classes'', ''Nutritional Consulting''] 1 NONE of
      Inl e \<Rightarrow> False
    | Inr (tot, b) \<Rightarrow> bd_subtotal b = rnd (21999 / 100)
        \<and> bd_special_offer_discount b = Fin 20 \<and> tot = rnd (19999 / 100))"
  by code_simp

lemma scenario_5:
  "(case calculate_total_cost init_manager ''Premium'' [] 1 EXCLUSIVE_FACILITIES of
      Inl e \<Rightarrow> False
    | Inr (tot, b) \<Rightarrow> bd_base_cost b = rnd (5999 / 100)
        \<and> bd_premium_surcharge b = rnd (89985 / 10000) \<and> tot = rnd (689885 / 10000))"
  by code_simp

lemma scenario_6:
  "(case calculate_total_cost init_manager ''Family''
           [''Personal Training'', ''Group Classes'', ''Nutritional Consulting''] 2
           EXCLUSIVE_FACILITIES of
      Inl e \<Rightarrow> False
    | Inr (tot, b) \<Rightarrow> bd_subtotal b = rnd (21999 / 100)
        \<and> bd_after_group_discount b = rnd (197991 / 1000)
        \<and> bd_special_offer_discount b = Fin 0
        \<and> bd_premium_surcharge b = rnd (2969865 / 100000)
        \<and> tot = Fin (1001389670796991 / 4398046511104))"
  by code_simp

lemma scenario_6_total:
  "\<bar>1001389670796991 / 4398046511104 - 22769 / 100\<bar> < (1 / 200 :: rat)"
  by simp

text \<open>
  C5.  With the seed catalogs \<open>calculate_total_cost\<close> reproduces the six scenarios.  Every
  stated amount is met exactly: the float computed equals the float that the decimal
  literal of the specification denotes (\<open>rnd\<close> of that decimal).  The total of the last
  scenario is the float 227.68965000000003, less than half a cent away from 227.69.
\<close>

theorem seed_scenarios:
  "(case calculate_total_cost init_manager ''Basic'' [] 1 NONE of
      Inl e \<Rightarrow> False
    | Inr (tot, b) \<Rightarrow> tot = rnd (2999 / 100))
   \<and> (case calculate_total_cost init_manager ''Basic'' [''Personal Training''] 1 NONE of
      Inl e \<Rightarrow> False
    | Inr (tot, b) \<Rightarrow> bd_subtotal b = rnd (7999 / 100) \<and> tot = rnd (7999 / 100))
   \<and> (case calculate_total_cost init_manager ''Basic'' [] 2 NONE of
      Inl e \<Rightarrow> False
    | Inr (tot, b) \<Rightarrow> bd_group_discount b = rnd (2999 / 1000)
        \<and> bd_after_group_discount b = rnd (26991 / 1000) \<and> tot = rnd (26991 / 1000))
   \<and> (case calculate_total_cost init_manager ''Family''
           [''Personal Training'', ''Group Classes'', ''Nutritional Consulting''] 1 NONE of
      Inl e \<Rightarrow> False
    | Inr (tot, b) \<Rightarrow> bd_subtotal b = rnd (21999 / 100)
        \<and> bd_special_offer_discount b = Fin 20 \<and> tot = rnd (19999 / 100))
   \<and> (case calculate_total_cost init_manager ''Premium'' [] 1 EXCLUSIVE_FACILITIES of
      Inl e \<Rightarrow> False
    | Inr (tot, b) \<Rightarrow> bd_base_cost b = rnd (5999 / 100)
        \<and> bd_premium_surcharge b = rnd (89985 / 10000) \<and> tot = rnd (689885 / 10000))
   \<and> (case calculate_total_cost init_manager ''Family''
           [''Personal Training'', ''Group Classes'', ''Nutritional Consulting''] 2
           EXCLUSIVE_FACILITIES of
      Inl e \<Rightarrow> False
    | Inr (tot, b) \<Rightarrow> bd_subtotal b = rnd (21999 / 100)
        \<and> bd_after_group_discount b = rnd (197991 / 1000)
        \<and> bd_special_offer_discount b = Fin 0
        \<and> bd_premium_surcharge b = rnd (2969865 / 100000)
        \<and> tot = Fin (1001389670796991 / 4398046511104))
   \<and> \<bar>1001389670796991 / 4398046511104 - 22769 / 100\<bar> < (1 / 200 :: rat)"
  using scenario_1 scenario_2 scenario_3 scenario_4 scenario_5 scenario_6 scenario_6_total
  by (intro conjI)

end
